theory Spec2Isabelle
  imports Main "HOL-Library.Sublist" "HOL-Library.AList" "HOL-Library.Word"
begin

section \<open>Go primitives used by package i18n\<close>

text \<open>
  Go strings are byte sequences, modelled as \<^typ>\<open>string\<close>. Go \<open>int\<close> offsets are
  modelled as \<^typ>\<open>int\<close>. A run-time panic is a value of type \<open>panic\<close>; a function that
  can panic returns \<open>panic + 'a\<close>, with \<open>Inl\<close> the panic.
\<close>

datatype panic =
    IndexOutOfRange int nat
  | SliceBoundsOutOfRange int int
  | NilDereference

text \<open>\<open>strings.Count(s, sep)\<close> for a one-byte separator: the number of occurrences of the byte.\<close>

definition Count :: "string \<Rightarrow> char \<Rightarrow> nat" where
  "Count s c = length (filter (\<lambda>x. x = c) s)"

text \<open>\<open>strings.Index(s, substr)\<close>: offset of the first occurrence of \<open>substr\<close>, or \<open>-1\<close>.\<close>

fun Index :: "string \<Rightarrow> string \<Rightarrow> int" where
  "Index [] substr = (if substr = [] then 0 else - 1)"
| "Index (c # cs) substr =
     (if prefix substr (c # cs) then 0
      else (let r = Index cs substr in if r = - 1 then - 1 else r + 1))"

text \<open>\<open>strconv.Itoa\<close> on the non-negative loop counter of \<open>Add\<close>.\<close>

definition digit :: "nat \<Rightarrow> char" where
  "digit n = ''0123456789'' ! n"

fun Itoa :: "nat \<Rightarrow> string" where
  "Itoa n = (if n < 10 then [digit n] else Itoa (n div 10) @ [digit (n mod 10)])"

declare Itoa.simps [simp del]

text \<open>The Go slice expression \<open>s[lo:hi]\<close> on a string, with its bounds check.\<close>

definition slice :: "string \<Rightarrow> int \<Rightarrow> int \<Rightarrow> panic + string" where
  "slice s lo hi =
     (if 0 \<le> lo \<and> lo \<le> hi \<and> hi \<le> int (length s)
      then Inr (take (nat (hi - lo)) (drop (nat lo) s))
      else Inl (SliceBoundsOutOfRange lo hi))"

text \<open>\<open>s[lo:]\<close> is \<open>s[lo:len(s)]\<close>, and \<open>s[:hi]\<close> is \<open>s[0:hi]\<close>.\<close>

definition slice_from :: "string \<Rightarrow> int \<Rightarrow> panic + string" where
  "slice_from s lo = slice s lo (int (length s))"

definition slice_to :: "string \<Rightarrow> int \<Rightarrow> panic + string" where
  "slice_to s hi = slice s 0 hi"

text \<open>
  \<open>strings.ToLower\<close>. The library first looks for a byte from \<open>0x80\<close> (\<open>utf8.RuneSelf\<close>)
  on. When there is none, it maps the letters \<open>A\<close> to \<open>Z\<close> to \<open>a\<close> to \<open>z\<close> and keeps
  every other byte. Otherwise it maps every rune by the case tables of Unicode
  (\<open>Map(unicode.ToLower, s)\<close>); these tables are not part of this development, and
  \<open>unicode_ToLower\<close> stands for that mapping: it is some function of the string, of which
  nothing is known, so that all that is proved below holds whatever the tables say.
\<close>

definition isASCII :: "string \<Rightarrow> bool" where
  "isASCII s = list_all (\<lambda>c. of_char c < (128::nat)) s"

definition lower_char :: "char \<Rightarrow> char" where
  "lower_char c =
     (case map_of (zip ''ABCDEFGHIJKLMNOPQRSTUVWXYZ'' ''abcdefghijklmnopqrstuvwxyz'') c of
        Some d \<Rightarrow> d | None \<Rightarrow> c)"

definition unicode_ToLower :: "string \<Rightarrow> string" where
  "unicode_ToLower = undefined"

definition ToLower :: "string \<Rightarrow> string" where
  "ToLower s = (if isASCII s then map lower_char s else unicode_ToLower s)"

section \<open>The plural rules and the locale (package locales)\<close>

text \<open>
  Modelled from the spec: the type \<open>locales.PluralRule\<close>, its constants and its method
  \<open>String\<close> are declared in the package \<open>github.com/go-playground/locales\<close>, which is not
  among the sources. The specification has a fixed vocabulary of rules, \<open>zero\<close>, \<open>one\<close>,
  \<open>two\<close>, \<open>few\<close>, \<open>many\<close>, \<open>other\<close>, which is the string form of the enumeration, and
  a slot array that covers every rule and a sentinel for an unknown rule. So the
  enumeration is \<open>PluralRuleUnknown = 0\<close>, \<open>PluralRuleZero\<close>, ..., \<open>PluralRuleOther = 6\<close>;
  the translator sizes every slot slice with \<open>make([]*transText, 7)\<close> and indexes it with
  the rule.
\<close>

datatype PluralRule =
    PluralRuleUnknown
  | PluralRuleZero
  | PluralRuleOne
  | PluralRuleTwo
  | PluralRuleFew
  | PluralRuleMany
  | PluralRuleOther

fun rule_index :: "PluralRule \<Rightarrow> nat" where
  "rule_index PluralRuleUnknown = 0"
| "rule_index PluralRuleZero = 1"
| "rule_index PluralRuleOne = 2"
| "rule_index PluralRuleTwo = 3"
| "rule_index PluralRuleFew = 4"
| "rule_index PluralRuleMany = 5"
| "rule_index PluralRuleOther = 6"

text \<open>\<open>locales.PluralRule(i).String()\<close>, as the stringer of the enumeration prints it.\<close>

definition PluralRule_String :: "nat \<Rightarrow> string" where
  "PluralRule_String i =
     (if i < 7 then [''Unknown'', ''Zero'', ''One'', ''Two'', ''Few'', ''Many'', ''Other''] ! i
      else ''PluralRule('' @ Itoa i @ '')'')"

type_synonym float64 = "64 word"
type_synonym uint64 = "64 word"

text \<open>
  The interface \<open>locales.Translator\<close> is declared in the same package. The methods that
  the translator calls are taken as parameters: a locale is a record of them. The numeric
  arguments are passed through to the locale unchanged; a \<open>float64\<close> is carried as its
  64 bits.
\<close>

record locales_Translator =
  Locale :: string
  PluralsCardinal :: "PluralRule list"
  PluralsOrdinal :: "PluralRule list"
  PluralsRange :: "PluralRule list"
  CardinalPluralRule :: "float64 \<Rightarrow> uint64 \<Rightarrow> PluralRule"
  OrdinalPluralRule :: "float64 \<Rightarrow> uint64 \<Rightarrow> PluralRule"
  RangePluralRule :: "float64 \<Rightarrow> uint64 \<Rightarrow> float64 \<Rightarrow> uint64 \<Rightarrow> PluralRule"

section \<open>The translator (translator.go)\<close>

text \<open>A key is a Go \<open>interface{}\<close> value: a string, or a value of some other type.\<close>

datatype ikey = KString string | KOther nat

record transText =
  text' :: string
  indexes :: "int list"

text \<open>
  Go maps are association lists with \<open>map_of\<close> as lookup and \<open>AList.update\<close> as
  assignment; the order of the list is the order in which a \<open>range\<close> loop visits the map.
  A slot slice \<open>[]*transText\<close> is a list of optional entries, \<open>None\<close> for \<open>nil\<close>.
\<close>

type_synonym slots = "transText option list"

record translator =
  Translator :: locales_Translator
  translations' :: "(ikey \<times> transText) list"
  cardinalTanslations :: "(ikey \<times> slots) list"
  ordinalTanslations :: "(ikey \<times> slots) list"
  rangeTanslations :: "(ikey \<times> slots) list"

text \<open>
  The \<open>Text\<close> of the three category errors is a formatted message; the model keeps which
  message it is and its arguments.
\<close>

datatype message =
    RuleDoesNotExist PluralRule string string string
  | ParameterNotFound string string string string

datatype error =
    ErrKeyIsNotString
  | ErrUnknownTranslation string
  | ErrConflictingTranslation string string PluralRule string
  | ErrRangeTranslation message
  | ErrOrdinalTranslation message
  | ErrCardinalTranslation message
  | ErrMissingPluralTranslation string string PluralRule string
  | ErrMissingBrace string string string
  | ErrBadParamSyntax string string string string
  | ErrLocaleNotRegistered string
  | ErrInvalidRuleType string

definition paramZero :: string where
  "paramZero = ''{0}''"

definition paramOne :: string where
  "paramOne = ''{1}''"

definition unknownTranslation :: string where
  "unknownTranslation = ''''"

definition newTranslator :: "locales_Translator \<Rightarrow> translator" where
  "newTranslator loc =
     \<lparr>Translator = loc, translations' = [], cardinalTanslations = [],
      ordinalTanslations = [], rangeTanslations = []\<rparr>"

subsection \<open>Add\<close>

text \<open>
  The loop \<open>for i := 0; i < lb; i++\<close> of \<open>Add\<close>; the third argument counts the iterations
  that remain (\<open>lb - i\<close>). \<open>Inl s\<close> is the early return with the parameter \<open>s\<close> that was
  not found.
\<close>

fun Add_loop :: "string \<Rightarrow> nat \<Rightarrow> nat \<Rightarrow> int list \<Rightarrow> string + int list" where
  "Add_loop text i 0 idxs = Inr idxs"
| "Add_loop text i (Suc n) idxs =
     (let s = ''{'' @ Itoa i @ ''}''; idx = Index text s
      in if idx = - 1 then Inl s
         else Add_loop text (Suc i) n (idxs @ [idx, idx + int (length s)]))"

definition Add :: "translator \<Rightarrow> ikey \<Rightarrow> string \<Rightarrow> bool \<Rightarrow> translator \<times> error option" where
  "Add t k text override =
     (case k of
        KOther _ \<Rightarrow> (t, Some ErrKeyIsNotString)
      | KString key \<Rightarrow>
          if map_of (translations' t) k \<noteq> None \<and> \<not> override
          then (t, Some (ErrConflictingTranslation (Locale (Translator t)) key
                          PluralRuleUnknown text))
          else
            let lb = Count text CHR ''{''; rb = Count text CHR ''}''
            in if lb \<noteq> rb
               then (t, Some (ErrMissingBrace (Locale (Translator t)) key text))
               else (case Add_loop text 0 lb [] of
                       Inl s \<Rightarrow>
                         (t, Some (ErrBadParamSyntax (Locale (Translator t)) s key text))
                     | Inr idxs \<Rightarrow>
                         (t\<lparr>translations' :=
                              AList.update k \<lparr>text' = text, indexes = idxs\<rparr> (translations' t)\<rparr>,
                          None)))"

subsection \<open>AddCardinal, AddOrdinal, AddRange\<close>

text \<open>
  The conflict test \<open>len(tarr) > 0 && tarr[rule] != nil && !override\<close> on the slot slice
  found for the key (\<open>None\<close>: the key is not in the map).
\<close>

definition conflicting :: "slots option \<Rightarrow> PluralRule \<Rightarrow> bool \<Rightarrow> panic + bool" where
  "conflicting found rule override =
     (case found of
        None \<Rightarrow> Inr False
      | Some tarr \<Rightarrow>
          if 0 < length tarr
          then if rule_index rule < length tarr
               then Inr (tarr ! rule_index rule \<noteq> None \<and> \<not> override)
               else Inl (IndexOutOfRange (int (rule_index rule)) (length tarr))
          else Inr False)"

text \<open>The slice that the function goes on with: the one found, or \<open>make([]*transText, 7)\<close>.\<close>

definition slots_of :: "slots option \<Rightarrow> slots" where
  "slots_of found = (case found of Some tarr \<Rightarrow> tarr | None \<Rightarrow> replicate 7 None)"

definition AddCardinal ::
  "translator \<Rightarrow> ikey \<Rightarrow> string \<Rightarrow> PluralRule \<Rightarrow> bool \<Rightarrow> panic + (translator \<times> error option)" where
  "AddCardinal t k text rule override =
     (case k of
        KOther _ \<Rightarrow> Inr (t, Some ErrKeyIsNotString)
      | KString key \<Rightarrow>
          if rule \<notin> set (PluralsCardinal (Translator t))
          then Inr (t, Some (ErrCardinalTranslation
                      (RuleDoesNotExist rule (Locale (Translator t)) key text)))
          else
            (case conflicting (map_of (cardinalTanslations t) k) rule override of
               Inl p \<Rightarrow> Inl p
             | Inr True \<Rightarrow>
                 Inr (t, Some (ErrConflictingTranslation (Locale (Translator t)) key rule text))
             | Inr False \<Rightarrow>
                 let tarr = slots_of (map_of (cardinalTanslations t) k);
                     idx = Index text paramZero
                 in if \<not> rule_index rule < length tarr
                    then Inl (IndexOutOfRange (int (rule_index rule)) (length tarr))
                    else if idx = - 1
                    then Inr (t\<lparr>cardinalTanslations :=
                                 AList.update k (tarr[rule_index rule := None])
                                   (cardinalTanslations t)\<rparr>,
                              Some (ErrCardinalTranslation
                                 (ParameterNotFound paramZero (Locale (Translator t)) key text)))
                    else Inr (t\<lparr>cardinalTanslations :=
                                 AList.update k
                                   (tarr[rule_index rule :=
                                      Some \<lparr>text' = text,
                                            indexes = [idx, idx + int (length paramZero)]\<rparr>])
                                   (cardinalTanslations t)\<rparr>,
                              None)))"

definition AddOrdinal ::
  "translator \<Rightarrow> ikey \<Rightarrow> string \<Rightarrow> PluralRule \<Rightarrow> bool \<Rightarrow> panic + (translator \<times> error option)" where
  "AddOrdinal t k text rule override =
     (case k of
        KOther _ \<Rightarrow> Inr (t, Some ErrKeyIsNotString)
      | KString key \<Rightarrow>
          if rule \<notin> set (PluralsOrdinal (Translator t))
          then Inr (t, Some (ErrOrdinalTranslation
                      (RuleDoesNotExist rule (Locale (Translator t)) key text)))
          else
            (case conflicting (map_of (ordinalTanslations t) k) rule override of
               Inl p \<Rightarrow> Inl p
             | Inr True \<Rightarrow>
                 Inr (t, Some (ErrConflictingTranslation (Locale (Translator t)) key rule text))
             | Inr False \<Rightarrow>
                 let tarr = slots_of (map_of (ordinalTanslations t) k);
                     idx = Index text paramZero
                 in if \<not> rule_index rule < length tarr
                    then Inl (IndexOutOfRange (int (rule_index rule)) (length tarr))
                    else if idx = - 1
                    then Inr (t\<lparr>ordinalTanslations :=
                                 AList.update k (tarr[rule_index rule := None])
                                   (ordinalTanslations t)\<rparr>,
                              Some (ErrOrdinalTranslation
                                 (ParameterNotFound paramZero (Locale (Translator t)) key text)))
                    else Inr (t\<lparr>ordinalTanslations :=
                                 AList.update k
                                   (tarr[rule_index rule :=
                                      Some \<lparr>text' = text,
                                            indexes = [idx, idx + int (length paramZero)]\<rparr>])
                                   (ordinalTanslations t)\<rparr>,
                              None)))"

definition AddRange ::
  "translator \<Rightarrow> ikey \<Rightarrow> string \<Rightarrow> PluralRule \<Rightarrow> bool \<Rightarrow> panic + (translator \<times> error option)" where
  "AddRange t k text rule override =
     (case k of
        KOther _ \<Rightarrow> Inr (t, Some ErrKeyIsNotString)
      | KString key \<Rightarrow>
          if rule \<notin> set (PluralsRange (Translator t))
          then Inr (t, Some (ErrRangeTranslation
                      (RuleDoesNotExist rule (Locale (Translator t)) key text)))
          else
            (case conflicting (map_of (rangeTanslations t) k) rule override of
               Inl p \<Rightarrow> Inl p
             | Inr True \<Rightarrow>
                 Inr (t, Some (ErrConflictingTranslation (Locale (Translator t)) key rule text))
             | Inr False \<Rightarrow>
                 let tarr = slots_of (map_of (rangeTanslations t) k);
                     idx = Index text paramZero;
                     idx1 = Index text paramOne
                 in if \<not> rule_index rule < length tarr
                    then Inl (IndexOutOfRange (int (rule_index rule)) (length tarr))
                    else if idx = - 1
                    then Inr (t\<lparr>rangeTanslations :=
                                 AList.update k (tarr[rule_index rule := None])
                                   (rangeTanslations t)\<rparr>,
                              Some (ErrRangeTranslation
                                 (ParameterNotFound paramZero (Locale (Translator t)) key text)))
                    else if idx1 = - 1
                    then Inr (t\<lparr>rangeTanslations :=
                                 AList.update k (tarr[rule_index rule := None])
                                   (rangeTanslations t)\<rparr>,
                              Some (ErrRangeTranslation
                                 (ParameterNotFound paramOne (Locale (Translator t)) key text)))
                    else Inr (t\<lparr>rangeTanslations :=
                                 AList.update k
                                   (tarr[rule_index rule :=
                                      Some \<lparr>text' = text,
                                            indexes = [idx, idx + int (length paramZero),
                                                       idx1, idx1 + int (length paramOne)]\<rparr>])
                                   (rangeTanslations t)\<rparr>,
                              None)))"

subsection \<open>T, C, O, R\<close>

text \<open>The method \<open>O\<close> is named \<open>O'\<close>, as \<open>O\<close> is the composition of relations.\<close>

text \<open>
  The loop of \<open>T\<close>: \<open>for i := 0; i < len(trans.indexes); i++\<close>, with the second \<open>i++\<close> in
  its body. The state of the loop is \<open>i\<close>, \<open>start\<close>, \<open>count\<close> and the buffer \<open>b\<close>; the
  result is the buffer and \<open>start\<close> after the loop. The three guarded reads are the
  slice \<open>trans.text[start:end]\<close>, \<open>params[count]\<close> and \<open>trans.indexes[i]\<close> after \<open>i++\<close>.
\<close>

function T_loop ::
  "transText \<Rightarrow> string list \<Rightarrow> nat \<Rightarrow> int \<Rightarrow> nat \<Rightarrow> string \<Rightarrow> panic + (string \<times> int)" where
  "T_loop tr params i start count b =
     (if i < length (indexes tr)
      then (case slice (text' tr) start (indexes tr ! i) of
              Inl p \<Rightarrow> Inl p
            | Inr piece \<Rightarrow>
                if \<not> count < length params
                then Inl (IndexOutOfRange (int count) (length params))
                else if \<not> Suc i < length (indexes tr)
                then Inl (IndexOutOfRange (int (Suc i)) (length (indexes tr)))
                else T_loop tr params (Suc (Suc i)) (indexes tr ! Suc i) (Suc count)
                       (b @ piece @ params ! count))
      else Inr (b, start))"
  by pat_completeness auto
termination
  by (relation "measure (\<lambda>(tr, params, i, start, count, b). length (indexes tr) - i)") auto

declare T_loop.simps [simp del]

definition T :: "translator \<Rightarrow> ikey \<Rightarrow> string list \<Rightarrow> panic + (string \<times> error option)" where
  "T t k params =
     (case k of
        KOther _ \<Rightarrow> Inr (unknownTranslation, Some ErrKeyIsNotString)
      | KString key \<Rightarrow>
          (case map_of (translations' t) k of
             None \<Rightarrow> Inr (unknownTranslation, Some (ErrUnknownTranslation key))
           | Some tr \<Rightarrow>
               (case T_loop tr params 0 0 0 [] of
                  Inl p \<Rightarrow> Inl p
                | Inr (b, start) \<Rightarrow>
                    (case slice_from (text' tr) start of
                       Inl p \<Rightarrow> Inl p
                     | Inr rest \<Rightarrow> Inr (b @ rest, None)))))"

text \<open>A guarded read \<open>xs[i]\<close> of an offset.\<close>

definition at :: "int list \<Rightarrow> nat \<Rightarrow> panic + int" where
  "at xs i = (if i < length xs then Inr (xs ! i) else Inl (IndexOutOfRange (int i) (length xs)))"

text \<open>
  \<open>trans := tarr[rule]\<close> followed by the first use of \<open>trans\<close>: the read of the slot is
  guarded, and an empty slot is a nil pointer.
\<close>

definition deref :: "slots \<Rightarrow> PluralRule \<Rightarrow> panic + transText" where
  "deref tarr rule =
     (if rule_index rule < length tarr
      then (case tarr ! rule_index rule of None \<Rightarrow> Inl NilDereference | Some tr \<Rightarrow> Inr tr)
      else Inl (IndexOutOfRange (int (rule_index rule)) (length tarr)))"

text \<open>The body shared by \<open>C\<close> and \<open>O\<close>: one parameter spliced into one span.\<close>

definition splice1 :: "transText \<Rightarrow> string \<Rightarrow> panic + string" where
  "splice1 tr param =
     (case at (indexes tr) 0 of Inl p \<Rightarrow> Inl p | Inr i0 \<Rightarrow>
     (case slice_to (text' tr) i0 of Inl p \<Rightarrow> Inl p | Inr s0 \<Rightarrow>
     (case at (indexes tr) 1 of Inl p \<Rightarrow> Inl p | Inr i1 \<Rightarrow>
     (case slice_from (text' tr) i1 of Inl p \<Rightarrow> Inl p | Inr s1 \<Rightarrow>
        Inr (s0 @ param @ s1)))))"

text \<open>The body of \<open>R\<close>: two parameters spliced into two spans.\<close>

definition splice2 :: "transText \<Rightarrow> string \<Rightarrow> string \<Rightarrow> panic + string" where
  "splice2 tr param1 param2 =
     (case at (indexes tr) 0 of Inl p \<Rightarrow> Inl p | Inr i0 \<Rightarrow>
     (case slice_to (text' tr) i0 of Inl p \<Rightarrow> Inl p | Inr s0 \<Rightarrow>
     (case at (indexes tr) 1 of Inl p \<Rightarrow> Inl p | Inr i1 \<Rightarrow>
     (case at (indexes tr) 2 of Inl p \<Rightarrow> Inl p | Inr i2 \<Rightarrow>
     (case slice (text' tr) i1 i2 of Inl p \<Rightarrow> Inl p | Inr s1 \<Rightarrow>
     (case at (indexes tr) 3 of Inl p \<Rightarrow> Inl p | Inr i3 \<Rightarrow>
     (case slice_from (text' tr) i3 of Inl p \<Rightarrow> Inl p | Inr s2 \<Rightarrow>
        Inr (s0 @ param1 @ s1 @ param2 @ s2))))))))"

definition C ::
  "translator \<Rightarrow> ikey \<Rightarrow> float64 \<Rightarrow> uint64 \<Rightarrow> string \<Rightarrow> panic + (string \<times> error option)" where
  "C t k num digits param =
     (case k of
        KOther _ \<Rightarrow> Inr (unknownTranslation, Some ErrKeyIsNotString)
      | KString key \<Rightarrow>
          (case map_of (cardinalTanslations t) k of
             None \<Rightarrow> Inr (unknownTranslation, Some (ErrUnknownTranslation key))
           | Some tarr \<Rightarrow>
               (case deref tarr (CardinalPluralRule (Translator t) num digits) of
                  Inl p \<Rightarrow> Inl p
                | Inr tr \<Rightarrow>
                    (case splice1 tr param of
                       Inl p \<Rightarrow> Inl p
                     | Inr b \<Rightarrow> Inr (b, None)))))"

definition O' ::
  "translator \<Rightarrow> ikey \<Rightarrow> float64 \<Rightarrow> uint64 \<Rightarrow> string \<Rightarrow> panic + (string \<times> error option)" where
  "O' t k num digits param =
     (case k of
        KOther _ \<Rightarrow> Inr (unknownTranslation, Some ErrKeyIsNotString)
      | KString key \<Rightarrow>
          (case map_of (ordinalTanslations t) k of
             None \<Rightarrow> Inr (unknownTranslation, Some (ErrUnknownTranslation key))
           | Some tarr \<Rightarrow>
               (case deref tarr (OrdinalPluralRule (Translator t) num digits) of
                  Inl p \<Rightarrow> Inl p
                | Inr tr \<Rightarrow>
                    (case splice1 tr param of
                       Inl p \<Rightarrow> Inl p
                     | Inr b \<Rightarrow> Inr (b, None)))))"

definition R ::
  "translator \<Rightarrow> ikey \<Rightarrow> float64 \<Rightarrow> uint64 \<Rightarrow> float64 \<Rightarrow> uint64 \<Rightarrow> string \<Rightarrow> string \<Rightarrow>
     panic + (string \<times> error option)" where
  "R t k num1 digits1 num2 digits2 param1 param2 =
     (case k of
        KOther _ \<Rightarrow> Inr (unknownTranslation, Some ErrKeyIsNotString)
      | KString key \<Rightarrow>
          (case map_of (rangeTanslations t) k of
             None \<Rightarrow> Inr (unknownTranslation, Some (ErrUnknownTranslation key))
           | Some tarr \<Rightarrow>
               (case deref tarr (RangePluralRule (Translator t) num1 digits1 num2 digits2) of
                  Inl p \<Rightarrow> Inl p
                | Inr tr \<Rightarrow>
                    (case splice2 tr param1 param2 of
                       Inl p \<Rightarrow> Inl p
                     | Inr b \<Rightarrow> Inr (b, None)))))"

subsection \<open>VerifyTranslations\<close>

text \<open>
  The inner loop \<open>for _, rule := range t.PluralsCardinal()\<close>: the first rule whose slot
  \<open>v[rule]\<close> is nil, if there is one.
\<close>

fun verify_rules :: "slots \<Rightarrow> PluralRule list \<Rightarrow> panic + PluralRule option" where
  "verify_rules v [] = Inr None"
| "verify_rules v (rule # rules) =
     (if \<not> rule_index rule < length v
      then Inl (IndexOutOfRange (int (rule_index rule)) (length v))
      else if v ! rule_index rule = None then Inr (Some rule)
      else verify_rules v rules)"

text \<open>The outer loop \<open>for k, v := range m\<close> over one of the three plural maps.\<close>

fun verify_map ::
  "string \<Rightarrow> string \<Rightarrow> PluralRule list \<Rightarrow> (ikey \<times> slots) list \<Rightarrow> panic + error option" where
  "verify_map l ty rules [] = Inr None"
| "verify_map l ty rules ((k, v) # m) =
     (case k of
        KOther _ \<Rightarrow> Inr (Some ErrKeyIsNotString)
      | KString key \<Rightarrow>
          (case verify_rules v rules of
             Inl p \<Rightarrow> Inl p
           | Inr (Some rule) \<Rightarrow> Inr (Some (ErrMissingPluralTranslation l key rule ty))
           | Inr None \<Rightarrow> verify_map l ty rules m))"

definition VerifyTranslations :: "translator \<Rightarrow> panic + error option" where
  "VerifyTranslations t =
     (case verify_map (Locale (Translator t)) ''plural'' (PluralsCardinal (Translator t))
             (cardinalTanslations t) of
        Inl p \<Rightarrow> Inl p
      | Inr (Some e) \<Rightarrow> Inr (Some e)
      | Inr None \<Rightarrow>
          (case verify_map (Locale (Translator t)) ''ordinal'' (PluralsOrdinal (Translator t))
                  (ordinalTanslations t) of
             Inl p \<Rightarrow> Inl p
           | Inr (Some e) \<Rightarrow> Inr (Some e)
           | Inr None \<Rightarrow>
               verify_map (Locale (Translator t)) ''range'' (PluralsRange (Translator t))
                 (rangeTanslations t)))"

section \<open>The registry (universalTranslator.go)\<close>

text \<open>
  \<open>translators\<close> maps the lower-cased locale name to its translator. The field \<open>fallback\<close>
  is a pointer: it is either the translator registered under some key of \<open>translators\<close>,
  or a translator of its own, or nil.
\<close>

datatype fallback_store = FallbackNil | FallbackRegistered string | FallbackOwn translator

record UniversalTranslator =
  translators :: "(string \<times> translator) list"
  fallback :: fallback_store

text \<open>
  \<open>FindTranslator(locales...)\<close> returns \<open>(translators[key], true)\<close> for the first locale
  that is registered, and \<open>(fallback, false)\<close> otherwise. The model returns the key, and
  \<open>None\<close> for the second case.
\<close>

fun FindTranslator :: "UniversalTranslator \<Rightarrow> string list \<Rightarrow> string option" where
  "FindTranslator ut [] = None"
| "FindTranslator ut (locale # locales) =
     (if map_of (translators ut) (ToLower locale) \<noteq> None then Some (ToLower locale)
      else FindTranslator ut locales)"

section \<open>Import and export (the TOML bridge)\<close>

definition RuleTypePlain :: string where
  "RuleTypePlain = ''plain''"

definition RuleTypeCardinal :: string where
  "RuleTypeCardinal = ''cardinal''"

definition RuleTypeOrdinal :: string where
  "RuleTypeOrdinal = ''ordinal''"

definition RuleTypeRange :: string where
  "RuleTypeRange = ''range''"

text \<open>The struct \<open>translation\<close>; its field \<open>Locale\<close> is named \<open>Locale'\<close> here.\<close>

record translation =
  Locale' :: string
  OverrideExisting :: bool
  RuleType :: string
  Zero :: string
  One :: string
  Two :: string
  Few :: string
  Many :: string
  Other :: string

text \<open>
  A TOML document is represented by the map that it encodes (the Go type \<open>translations\<close>,
  named \<open>translations_doc\<close> here), in the
  order in which the \<open>range\<close> loop of the import visits it; encoder and decoder are
  outside the model.
\<close>

type_synonym translations_doc = "(string \<times> translation) list"

definition empty_translation :: translation where
  "empty_translation =
     \<lparr>Locale' = [], OverrideExisting = False, RuleType = [], Zero = [], One = [],
      Two = [], Few = [], Many = [], Other = []\<rparr>"

subsection \<open>Export\<close>

text \<open>\<open>if _, ok := trans[key]; !ok { trans[key] = &translation{} }\<close>\<close>

definition ensure :: "string \<Rightarrow> translations_doc \<Rightarrow> translations_doc" where
  "ensure key trs =
     (if map_of trs key = None then AList.update key empty_translation trs else trs)"

text \<open>The loop of \<open>Export\<close> over the plain map of the translator.\<close>

fun export_plain :: "string \<Rightarrow> (ikey \<times> transText) list \<Rightarrow> translations_doc \<Rightarrow> error + translations_doc" where
  "export_plain l [] trs = Inr trs"
| "export_plain l ((k, v) # m) trs =
     (case k of
        KOther _ \<Rightarrow> Inl ErrKeyIsNotString
      | KString key \<Rightarrow>
          export_plain l m
            (AList.map_entry key (\<lambda>r. r\<lparr>Locale' := l, Other := text' v\<rparr>) (ensure key trs)))"

text \<open>The \<open>switch\<close> of \<open>exportPlurals\<close> on the lower-cased name of the rule.\<close>

definition set_field :: "string \<Rightarrow> string \<Rightarrow> translation \<Rightarrow> translation" where
  "set_field name v r =
     (if name = ''zero'' then r\<lparr>Zero := v\<rparr>
      else if name = ''one'' then r\<lparr>One := v\<rparr>
      else if name = ''two'' then r\<lparr>Two := v\<rparr>
      else if name = ''few'' then r\<lparr>Few := v\<rparr>
      else if name = ''many'' then r\<lparr>Many := v\<rparr>
      else if name = ''other'' then r\<lparr>Other := v\<rparr>
      else r)"

text \<open>The inner loop \<open>for i, plural := range pluralTrans\<close>, from index \<open>i\<close> on.\<close>

fun export_slots ::
  "string \<Rightarrow> string \<Rightarrow> string \<Rightarrow> nat \<Rightarrow> slots \<Rightarrow> translations_doc \<Rightarrow> translations_doc" where
  "export_slots l ruleType key i [] trs = trs"
| "export_slots l ruleType key i (plural # rest) trs =
     (case plural of
        None \<Rightarrow> export_slots l ruleType key (Suc i) rest trs
      | Some p \<Rightarrow>
          export_slots l ruleType key (Suc i) rest
            (AList.map_entry key
               (\<lambda>r. set_field (ToLower (PluralRule_String i)) (text' p)
                      (r\<lparr>Locale' := l, RuleType := ruleType\<rparr>))
               trs))"

fun exportPlurals ::
  "translations_doc \<Rightarrow> string \<Rightarrow> string \<Rightarrow> (ikey \<times> slots) list \<Rightarrow> error + translations_doc" where
  "exportPlurals trs l ruleType [] = Inr trs"
| "exportPlurals trs l ruleType ((k, pluralTrans) # plurals) =
     (case k of
        KOther _ \<Rightarrow> Inl ErrKeyIsNotString
      | KString key \<Rightarrow>
          exportPlurals (export_slots l ruleType key 0 pluralTrans (ensure key trs))
            l ruleType plurals)"

text \<open>The body of the loop of \<open>Export\<close> for one locale: the document written for it.\<close>

definition export_locale :: "translator \<Rightarrow> error + translations_doc" where
  "export_locale t =
     (let l = Locale (Translator t)
      in case export_plain l (translations' t) [] of
           Inl e \<Rightarrow> Inl e
         | Inr trs0 \<Rightarrow>
        (case exportPlurals trs0 l RuleTypeCardinal (cardinalTanslations t) of
           Inl e \<Rightarrow> Inl e
         | Inr trs1 \<Rightarrow>
        (case exportPlurals trs1 l RuleTypeOrdinal (ordinalTanslations t) of
           Inl e \<Rightarrow> Inl e
         | Inr trs2 \<Rightarrow> exportPlurals trs2 l RuleTypeRange (rangeTanslations t))))"

text \<open>
  \<open>Export\<close>: one file \<open><locale>.toml\<close> per registered translator. The result is the list
  of the files written, each with the document it holds, and the error that stopped the
  loop, if any. The directory and the writes are taken to succeed.
\<close>

fun Export_loop ::
  "(string \<times> translator) list \<Rightarrow> (string \<times> translations_doc) list \<Rightarrow>
     (string \<times> translations_doc) list \<times> error option" where
  "Export_loop [] files = (files, None)"
| "Export_loop ((lc, t) # rest) files =
     (case export_locale t of
        Inl e \<Rightarrow> (files, Some e)
      | Inr trs \<Rightarrow> Export_loop rest (files @ [(Locale (Translator t) @ ''.toml'', trs)]))"

definition Export :: "UniversalTranslator \<Rightarrow> (string \<times> translations_doc) list \<times> error option" where
  "Export ut = Export_loop (translators ut) []"

subsection \<open>Import\<close>

text \<open>
  The six \<open>if t.Zero != "" { ... }\<close> blocks of \<open>ImportFromReader\<close>, as a loop over the
  fields in the order of the source.
\<close>

definition fields_of :: "translation \<Rightarrow> (string \<times> PluralRule) list" where
  "fields_of t =
     [(Zero t, PluralRuleZero), (One t, PluralRuleOne), (Two t, PluralRuleTwo),
      (Few t, PluralRuleFew), (Many t, PluralRuleMany), (Other t, PluralRuleOther)]"

fun add_fields ::
  "(translator \<Rightarrow> ikey \<Rightarrow> string \<Rightarrow> PluralRule \<Rightarrow> bool \<Rightarrow> panic + (translator \<times> error option)) \<Rightarrow>
     translator \<Rightarrow> ikey \<Rightarrow> bool \<Rightarrow> (string \<times> PluralRule) list \<Rightarrow>
     panic + (translator \<times> error option)" where
  "add_fields addFn t k override [] = Inr (t, None)"
| "add_fields addFn t k override ((text, rule) # rest) =
     (if text \<noteq> []
      then (case addFn t k text rule override of
              Inl p \<Rightarrow> Inl p
            | Inr (t', Some e) \<Rightarrow> Inr (t', Some e)
            | Inr (t', None) \<Rightarrow> add_fields addFn t' k override rest)
      else add_fields addFn t k override rest)"

text \<open>
  The body of the loop of \<open>ImportFromReader\<close> for one entry of the document, on the
  translator found for its locale.
\<close>

definition import_into ::
  "translator \<Rightarrow> string \<Rightarrow> translation \<Rightarrow> panic + (translator \<times> error option)" where
  "import_into locale key t =
     (let ruleType = ToLower (RuleType t)
      in if ruleType = [] \<or> ruleType = RuleTypePlain
         then Inr (Add locale (KString key) (Other t) (OverrideExisting t))
         else if ruleType = RuleTypeCardinal
         then add_fields AddCardinal locale (KString key) (OverrideExisting t) (fields_of t)
         else if ruleType = RuleTypeOrdinal
         then add_fields AddOrdinal locale (KString key) (OverrideExisting t) (fields_of t)
         else if ruleType = RuleTypeRange
         then add_fields AddRange locale (KString key) (OverrideExisting t) (fields_of t)
         else Inr (locale, Some (ErrInvalidRuleType (RuleType t))))"

text \<open>
  One iteration: the translator is looked up and changed in place, so the registry holds
  the changed translator whatever the outcome.
\<close>

definition import_translation ::
  "UniversalTranslator \<Rightarrow> string \<Rightarrow> translation \<Rightarrow> panic + (UniversalTranslator \<times> error option)" where
  "import_translation ut key t =
     (case FindTranslator ut [Locale' t] of
        None \<Rightarrow> Inr (ut, Some (ErrLocaleNotRegistered (Locale' t)))
      | Some lc \<Rightarrow>
          (case map_of (translators ut) lc of
             None \<Rightarrow> Inr (ut, Some (ErrLocaleNotRegistered (Locale' t)))
           | Some locale \<Rightarrow>
               (case import_into locale key t of
                  Inl p \<Rightarrow> Inl p
                | Inr (locale', err) \<Rightarrow>
                    Inr (ut\<lparr>translators := AList.update lc locale' (translators ut)\<rparr>, err))))"

text \<open>\<open>ImportFromReader\<close> on the decoded document: the loop \<open>for key, t := range trans\<close>.\<close>

fun ImportFromReader ::
  "UniversalTranslator \<Rightarrow> translations_doc \<Rightarrow> panic + (UniversalTranslator \<times> error option)" where
  "ImportFromReader ut [] = Inr (ut, None)"
| "ImportFromReader ut ((key, t) # rest) =
     (case import_translation ut key t of
        Inl p \<Rightarrow> Inl p
      | Inr (ut', Some e) \<Rightarrow> Inr (ut', Some e)
      | Inr (ut', None) \<Rightarrow> ImportFromReader ut' rest)"

section \<open>Categories, observations and invariants\<close>

text \<open>
  The three plural categories, to state a property of \<open>AddCardinal\<close>, \<open>AddOrdinal\<close> and
  \<open>AddRange\<close> once.
\<close>

datatype category = Cardinal | Ordinal | Range

fun AddPlural ::
  "category \<Rightarrow> translator \<Rightarrow> ikey \<Rightarrow> string \<Rightarrow> PluralRule \<Rightarrow> bool \<Rightarrow> panic + (translator \<times> error option)" where
  "AddPlural Cardinal = AddCardinal"
| "AddPlural Ordinal = AddOrdinal"
| "AddPlural Range = AddRange"

fun plural_map :: "category \<Rightarrow> translator \<Rightarrow> (ikey \<times> slots) list" where
  "plural_map Cardinal t = cardinalTanslations t"
| "plural_map Ordinal t = ordinalTanslations t"
| "plural_map Range t = rangeTanslations t"

fun Plurals :: "category \<Rightarrow> locales_Translator \<Rightarrow> PluralRule list" where
  "Plurals Cardinal l = PluralsCardinal l"
| "Plurals Ordinal l = PluralsOrdinal l"
| "Plurals Range l = PluralsRange l"

fun category_error :: "category \<Rightarrow> message \<Rightarrow> error" where
  "category_error Cardinal m = ErrCardinalTranslation m"
| "category_error Ordinal m = ErrOrdinalTranslation m"
| "category_error Range m = ErrRangeTranslation m"

text \<open>
  The placeholder that a plural add reports as not found in a text, if any, and the entry
  that it stores when none is missing.
\<close>

fun missing_param :: "category \<Rightarrow> string \<Rightarrow> string option" where
  "missing_param Range text =
     (if Index text paramZero = - 1 then Some paramZero
      else if Index text paramOne = - 1 then Some paramOne else None)"
| "missing_param cat text = (if Index text paramZero = - 1 then Some paramZero else None)"

fun compiled :: "category \<Rightarrow> string \<Rightarrow> transText" where
  "compiled Range text =
     \<lparr>text' = text,
      indexes = [Index text paramZero, Index text paramZero + 3,
                 Index text paramOne, Index text paramOne + 3]\<rparr>"
| "compiled cat text =
     \<lparr>text' = text, indexes = [Index text paramZero, Index text paramZero + 3]\<rparr>"

text \<open>
  The observation of a plural map: the entry in the slot of a key and a rule, \<open>None\<close> when
  the key is not in the map or the slot is nil. \<open>set_slot\<close> is the change that a plural add
  makes to its map: the slot slice of the key, a new one of seven nil slots when the key is
  new, is stored with the slot of the rule set.
\<close>

definition slot_at :: "(ikey \<times> slots) list \<Rightarrow> ikey \<Rightarrow> PluralRule \<Rightarrow> transText option" where
  "slot_at m k rule =
     (case map_of m k of
        None \<Rightarrow> None
      | Some tarr \<Rightarrow> if rule_index rule < length tarr then tarr ! rule_index rule else None)"

fun set_plural_map :: "category \<Rightarrow> (ikey \<times> slots) list \<Rightarrow> translator \<Rightarrow> translator" where
  "set_plural_map Cardinal m t = t\<lparr>cardinalTanslations := m\<rparr>"
| "set_plural_map Ordinal m t = t\<lparr>ordinalTanslations := m\<rparr>"
| "set_plural_map Range m t = t\<lparr>rangeTanslations := m\<rparr>"

definition set_slot :: "category \<Rightarrow> translator \<Rightarrow> ikey \<Rightarrow> PluralRule \<Rightarrow> transText option \<Rightarrow> translator" where
  "set_slot cat t k rule v =
     set_plural_map cat
       (AList.update k ((slots_of (map_of (plural_map cat t) k))[rule_index rule := v])
          (plural_map cat t)) t"

text \<open>
  The invariant of a translator: its maps have no key twice and only string keys, every
  slot slice has seven slots, and an entry sits in the slot of a rule only if the rule is
  in the list of the locale for the category. \<open>newTranslator\<close> establishes it, and every
  operation of the \<open>Add\<close> family preserves it.
\<close>

definition is_KString :: "ikey \<Rightarrow> bool" where
  "is_KString k = (case k of KString _ \<Rightarrow> True | KOther _ \<Rightarrow> False)"

definition slots_ok :: "PluralRule list \<Rightarrow> slots \<Rightarrow> bool" where
  "slots_ok rules v = (length v = 7 \<and> (\<forall>r. v ! rule_index r \<noteq> None \<longrightarrow> r \<in> set rules))"

definition plural_map_ok :: "PluralRule list \<Rightarrow> (ikey \<times> slots) list \<Rightarrow> bool" where
  "plural_map_ok rules m =
     (distinct (map fst m) \<and> (\<forall>(k, v) \<in> set m. is_KString k \<and> slots_ok rules v))"

definition store_ok :: "translator \<Rightarrow> bool" where
  "store_ok t =
     (distinct (map fst (translations' t)) \<and> (\<forall>(k, v) \<in> set (translations' t). is_KString k) \<and>
      plural_map_ok (PluralsCardinal (Translator t)) (cardinalTanslations t) \<and>
      plural_map_ok (PluralsOrdinal (Translator t)) (ordinalTanslations t) \<and>
      plural_map_ok (PluralsRange (Translator t)) (rangeTanslations t))"

text \<open>
  The translators that a program can build: a new one, changed by calls of the \<open>Add\<close>
  family, whatever they return. Each of them satisfies the invariant.
\<close>

inductive reachable :: "translator \<Rightarrow> bool" where
  new: "reachable (newTranslator l)"
| plain: "reachable t \<Longrightarrow> Add t k text override = (t', err) \<Longrightarrow> reachable t'"
| plural:
    "reachable t \<Longrightarrow> AddPlural cat t k text rule override = Inr (t', err) \<Longrightarrow> reachable t'"

text \<open>The offsets of an entry lie within its text.\<close>

definition offsets_in :: "string \<Rightarrow> int list \<Rightarrow> bool" where
  "offsets_in text idxs = (\<forall>x \<in> set idxs. 0 \<le> x \<and> x \<le> int (length text))"

text \<open>
  Observations on a registry: the plain entry of a key and the slot of a key and a rule,
  in the translator registered under a locale. \<open>registry_ok\<close> is the invariant of all its
  translators. \<open>import_category\<close> is the plural category that the import selects for an entry of
  a document.
\<close>

definition plain_at :: "UniversalTranslator \<Rightarrow> string \<Rightarrow> ikey \<Rightarrow> transText option" where
  "plain_at ut lc k =
     (case map_of (translators ut) lc of None \<Rightarrow> None | Some t \<Rightarrow> map_of (translations' t) k)"

definition plural_at ::
  "UniversalTranslator \<Rightarrow> string \<Rightarrow> category \<Rightarrow> ikey \<Rightarrow> PluralRule \<Rightarrow> transText option" where
  "plural_at ut lc cat k rule =
     (case map_of (translators ut) lc of
        None \<Rightarrow> None
      | Some t \<Rightarrow> slot_at (plural_map cat t) k rule)"

definition registry_ok :: "UniversalTranslator \<Rightarrow> bool" where
  "registry_ok ut = (\<forall>(lc, t) \<in> set (translators ut). store_ok t)"

definition import_category :: "translation \<Rightarrow> category option" where
  "import_category t =
     (let ruleType = ToLower (RuleType t)
      in if ruleType = [] \<or> ruleType = RuleTypePlain then None
         else if ruleType = RuleTypeCardinal then Some Cardinal
         else if ruleType = RuleTypeOrdinal then Some Ordinal
         else if ruleType = RuleTypeRange then Some Range
         else None)"

section \<open>The properties in the words of the specification\<close>

text \<open>
  The words of the specification of \<open>Verify\<close>: a plural map is complete when every entry
  has a non-empty slot for every rule of the list of the locale.
\<close>

definition complete :: "PluralRule list \<Rightarrow> (ikey \<times> slots) list \<Rightarrow> bool" where
  "complete rules m = (\<forall>(k, v) \<in> set m. \<forall>rule \<in> set rules. v ! rule_index rule \<noteq> None)"

definition key_string :: "ikey \<Rightarrow> string" where
  "key_string k = (case k of KString key \<Rightarrow> key | KOther _ \<Rightarrow> [])"

text \<open>
  The empty slots of a plural map, each as the error that reports it, in the order of the
  traversal: entry by entry, and rule by rule within an entry.
\<close>

definition missing_in ::
  "string \<Rightarrow> string \<Rightarrow> PluralRule list \<Rightarrow> (ikey \<times> slots) list \<Rightarrow> error list" where
  "missing_in l ty rules m =
     concat (map (\<lambda>(k, v).
                    map (\<lambda>rule. ErrMissingPluralTranslation l (key_string k) rule ty)
                      (filter (\<lambda>rule. v ! rule_index rule = None) rules)) m)"

definition all_missing :: "translator \<Rightarrow> error list" where
  "all_missing t =
     missing_in (Locale (Translator t)) ''plural'' (PluralsCardinal (Translator t))
       (cardinalTanslations t) @
     missing_in (Locale (Translator t)) ''ordinal'' (PluralsOrdinal (Translator t))
       (ordinalTanslations t) @
     missing_in (Locale (Translator t)) ''range'' (PluralsRange (Translator t))
       (rangeTanslations t)"

definition first_of :: "'a list \<Rightarrow> 'a option" where
  "first_of xs = (case xs of [] \<Rightarrow> None | x # _ \<Rightarrow> Some x)"

text \<open>
  The three plural renderers under one name, the rule that the locale selects for the
  numbers, and the text that is expected from them: the stored text with the parameters in
  place of the first \<open>{0}\<close> and, for a range, of the first \<open>{1}\<close>.
\<close>

fun render_plural ::
  "category \<Rightarrow> translator \<Rightarrow> ikey \<Rightarrow> float64 \<Rightarrow> uint64 \<Rightarrow> float64 \<Rightarrow> uint64 \<Rightarrow> string \<Rightarrow> string \<Rightarrow>
     panic + (string \<times> error option)" where
  "render_plural Cardinal t k num1 digits1 num2 digits2 param1 param2 =
     C t k num1 digits1 param1"
| "render_plural Ordinal t k num1 digits1 num2 digits2 param1 param2 =
     O' t k num1 digits1 param1"
| "render_plural Range t k num1 digits1 num2 digits2 param1 param2 =
     R t k num1 digits1 num2 digits2 param1 param2"

fun selected_rule ::
  "category \<Rightarrow> locales_Translator \<Rightarrow> float64 \<Rightarrow> uint64 \<Rightarrow> float64 \<Rightarrow> uint64 \<Rightarrow> PluralRule" where
  "selected_rule Cardinal l num1 digits1 num2 digits2 = CardinalPluralRule l num1 digits1"
| "selected_rule Ordinal l num1 digits1 num2 digits2 = OrdinalPluralRule l num1 digits1"
| "selected_rule Range l num1 digits1 num2 digits2 = RangePluralRule l num1 digits1 num2 digits2"

fun spliced :: "category \<Rightarrow> string \<Rightarrow> string \<Rightarrow> string \<Rightarrow> string" where
  "spliced Range text param1 param2 =
     (let i0 = nat (Index text paramZero); i1 = nat (Index text paramOne)
      in take i0 text @ param1 @ take (i1 - (i0 + 3)) (drop (i0 + 3) text) @ param2 @
         drop (i1 + 3) text)"
| "spliced cat text param1 param2 =
     (let i0 = nat (Index text paramZero)
      in take i0 text @ param1 @ drop (i0 + 3) text)"

text \<open>
  What \<open>T\<close> is expected to return. \<open>placeholder i\<close> is the text \<open>{i}\<close>. A template is a
  sequence of segments with a placeholder between each two of them; \<open>interleave\<close> puts a
  list of texts between the segments. \<open>cut\<close> gives the segments of a text around the spans
  of a list of offsets, from \<open>start\<close> on, and \<open>spans\<close> the texts in the spans.
\<close>

definition placeholder :: "nat \<Rightarrow> string" where
  "placeholder i = ''{'' @ Itoa i @ ''}''"

fun interleave :: "string list \<Rightarrow> string list \<Rightarrow> string" where
  "interleave [] ps = []"
| "interleave (s # segs) [] = s"
| "interleave (s # segs) (p # ps) = s @ p @ interleave segs ps"

fun cut :: "string \<Rightarrow> int \<Rightarrow> int list \<Rightarrow> string list" where
  "cut text start (a # b # rest) = take (nat (a - start)) (drop (nat start) text) # cut text b rest"
| "cut text start rest = [drop (nat start) text]"

fun spans :: "string \<Rightarrow> int list \<Rightarrow> string list" where
  "spans text (a # b # rest) = take (nat (b - a)) (drop (nat a) text) # spans text rest"
| "spans text rest = []"

section \<open>Example data\<close>

text \<open>
  A locale with the rule lists of English, and the translators, registries and documents
  that the properties below are evaluated on. Each translator is the result of calls of
  the \<open>Add\<close> family on \<open>newTranslator example_locale\<close>.
\<close>

definition example_locale :: locales_Translator where
  "example_locale =
     \<lparr>Locale = ''en'',
      PluralsCardinal = [PluralRuleOne, PluralRuleOther],
      PluralsOrdinal = [PluralRuleOne, PluralRuleTwo, PluralRuleFew, PluralRuleOther],
      PluralsRange = [PluralRuleOther],
      CardinalPluralRule = (\<lambda>num digits. if digits = 0 then PluralRuleOne else PluralRuleOther),
      OrdinalPluralRule = (\<lambda>num digits. PluralRuleOther),
      RangePluralRule = (\<lambda>num1 digits1 num2 digits2. PluralRuleOther)\<rparr>"

definition days_store :: translator where
  "days_store =
     \<lparr>Translator = example_locale, translations' = [],
      cardinalTanslations =
        [(KString ''days'',
          [None, None, None, None, None, None,
           Some \<lparr>text' = ''{0} days left'', indexes = [0, 3]\<rparr>])],
      ordinalTanslations = [], rangeTanslations = []\<rparr>"

definition days_store2 :: translator where
  "days_store2 =
     \<lparr>Translator = example_locale, translations' = [],
      cardinalTanslations =
        [(KString ''days'',
          [None, None, Some \<lparr>text' = ''{0} day left'', indexes = [0, 3]\<rparr>, None, None, None,
           Some \<lparr>text' = ''{0} days left'', indexes = [0, 3]\<rparr>])],
      ordinalTanslations = [], rangeTanslations = []\<rparr>"

definition days_store3 :: translator where
  "days_store3 =
     \<lparr>Translator = example_locale, translations' = [],
      cardinalTanslations =
        [(KString ''days'',
          [None, None, None, None, None, None,
           Some \<lparr>text' = ''{0} days'', indexes = [0, 3]\<rparr>])],
      ordinalTanslations = [], rangeTanslations = []\<rparr>"

definition greeting_store :: translator where
  "greeting_store =
     \<lparr>Translator = example_locale,
      translations' = [(KString ''greeting'', \<lparr>text' = ''Hello, {0}!'', indexes = [7, 10]\<rparr>)],
      cardinalTanslations = [], ordinalTanslations = [], rangeTanslations = []\<rparr>"

definition greeting_store2 :: translator where
  "greeting_store2 =
     \<lparr>Translator = example_locale,
      translations' = [(KString ''greeting'', \<lparr>text' = ''Hi, {0}!'', indexes = [4, 7]\<rparr>)],
      cardinalTanslations = [], ordinalTanslations = [], rangeTanslations = []\<rparr>"

definition swapped_store :: translator where
  "swapped_store =
     \<lparr>Translator = example_locale,
      translations' = [(KString ''pair'', \<lparr>text' = ''{1} {0}'', indexes = [4, 7, 0, 3]\<rparr>)],
      cardinalTanslations = [], ordinalTanslations = [], rangeTanslations = []\<rparr>"

definition both_store :: translator where
  "both_store =
     \<lparr>Translator = example_locale,
      translations' = [(KString ''days'', \<lparr>text' = ''days'', indexes = []\<rparr>)],
      cardinalTanslations =
        [(KString ''days'',
          [None, None, Some \<lparr>text' = ''{0} day left'', indexes = [0, 3]\<rparr>, None, None, None,
           Some \<lparr>text' = ''{0} days left'', indexes = [0, 3]\<rparr>])],
      ordinalTanslations = [], rangeTanslations = []\<rparr>"

definition greeting_store3 :: translator where
  "greeting_store3 =
     \<lparr>Translator = example_locale,
      translations' = [(KString ''greeting'', \<lparr>text' = ''{1} {0}'', indexes = [4, 7, 0, 3]\<rparr>)],
      cardinalTanslations = [], ordinalTanslations = [], rangeTanslations = []\<rparr>"

definition range_store :: translator where
  "range_store =
     \<lparr>Translator = example_locale, translations' = [],
      cardinalTanslations = [], ordinalTanslations = [],
      rangeTanslations =
        [(KString ''days'',
          [None, None, None, None, None, None,
           Some \<lparr>text' = ''{0}-{1} days'', indexes = [0, 3, 4, 7]\<rparr>])]\<rparr>"

definition range_store2 :: translator where
  "range_store2 =
     \<lparr>Translator = example_locale, translations' = [],
      cardinalTanslations = [], ordinalTanslations = [],
      rangeTanslations =
        [(KString ''days'',
          [None, None, None, None, None, None,
           Some \<lparr>text' = ''{0} to {1}'', indexes = [0, 3, 7, 10]\<rparr>])]\<rparr>"

definition range_store3 :: translator where
  "range_store3 =
     \<lparr>Translator = example_locale, translations' = [],
      cardinalTanslations = [], ordinalTanslations = [],
      rangeTanslations =
        [(KString ''days'',
          [None, None, None, None, None, None,
           Some \<lparr>text' = ''{1}-{0}'', indexes = [4, 7, 0, 3]\<rparr>])]\<rparr>"

definition fresh_registry :: UniversalTranslator where
  "fresh_registry =
     \<lparr>translators = [(''en'', newTranslator example_locale)],
      fallback = FallbackRegistered ''en''\<rparr>"

definition greeting_registry :: UniversalTranslator where
  "greeting_registry =
     \<lparr>translators = [(''en'', greeting_store)], fallback = FallbackRegistered ''en''\<rparr>"

definition aborted_registry :: UniversalTranslator where
  "aborted_registry =
     \<lparr>translators =
        [(''en'',
          greeting_store
            \<lparr>cardinalTanslations :=
               [(KString ''days'',
                 [None, None, Some \<lparr>text' = ''{0} day left'', indexes = [0, 3]\<rparr>, None, None,
                  None, None])]\<rparr>)],
      fallback = FallbackRegistered ''en''\<rparr>"

definition both_registry :: UniversalTranslator where
  "both_registry =
     \<lparr>translators = [(''en'', both_store)], fallback = FallbackRegistered ''en''\<rparr>"

definition days_registry :: UniversalTranslator where
  "days_registry =
     \<lparr>translators = [(''en'', days_store2)], fallback = FallbackRegistered ''en''\<rparr>"

definition greeting_record :: translation where
  "greeting_record =
     \<lparr>Locale' = ''en'', OverrideExisting = False, RuleType = [], Zero = [], One = [],
      Two = [], Few = [], Many = [], Other = ''Hello, {0}!''\<rparr>"

definition bad_days_record :: translation where
  "bad_days_record =
     \<lparr>Locale' = ''en'', OverrideExisting = False, RuleType = ''cardinal'', Zero = [],
      One = ''{0} day left'', Two = [], Few = [], Many = [], Other = ''days left''\<rparr>"

definition bye_record :: translation where
  "bye_record =
     \<lparr>Locale' = ''en'', OverrideExisting = False, RuleType = ''plain'', Zero = [], One = [],
      Two = [], Few = [], Many = [], Other = ''Bye''\<rparr>"

definition days_record :: translation where
  "days_record =
     \<lparr>Locale' = ''en'', OverrideExisting = False, RuleType = ''cardinal'', Zero = [],
      One = ''{0} day left'', Two = [], Few = [], Many = [], Other = ''{0} days left''\<rparr>"

section \<open>Properties\<close>

subsection \<open>The invariant and the plural adds\<close>

lemma rule_index_less: "rule_index r < 7"
  by (cases r) simp_all

lemma rule_index_inj: "rule_index r = rule_index r' \<longleftrightarrow> r = r'"
  by (cases r; cases r') simp_all

lemma store_ok_plural: "store_ok t \<Longrightarrow> plural_map_ok (Plurals cat (Translator t)) (plural_map cat t)"
  by (cases cat) (simp_all add: store_ok_def)

lemma plural_map_ok_lookup:
  "plural_map_ok rules m \<Longrightarrow> map_of m k = Some v \<Longrightarrow> slots_ok rules v \<and> is_KString k"
  by (auto simp: plural_map_ok_def dest!: map_of_SomeD)

lemma length_paramZero: "int (length paramZero) = 3"
  by (simp add: paramZero_def)

lemma length_paramOne: "int (length paramOne) = 3"
  by (simp add: paramOne_def)

lemma AddPlural_char:
  assumes ok: "store_ok t"
  shows "AddPlural cat t (KString key) text rule override =
     (if rule \<notin> set (Plurals cat (Translator t))
      then Inr (t, Some (category_error cat
                  (RuleDoesNotExist rule (Locale (Translator t)) key text)))
      else if slot_at (plural_map cat t) (KString key) rule \<noteq> None \<and> \<not> override
      then Inr (t, Some (ErrConflictingTranslation (Locale (Translator t)) key rule text))
      else (case missing_param cat text of
              Some p \<Rightarrow>
                Inr (set_slot cat t (KString key) rule None,
                     Some (category_error cat
                       (ParameterNotFound p (Locale (Translator t)) key text)))
            | None \<Rightarrow>
                Inr (set_slot cat t (KString key) rule (Some (compiled cat text)), None)))"
proof -
  have len: "length (slots_of (map_of (plural_map cat t) (KString key))) = 7"
    using plural_map_ok_lookup [OF store_ok_plural [OF ok, of cat]]
    by (auto simp: slots_of_def slots_ok_def split: option.splits)
  have conf: "conflicting (map_of (plural_map cat t) (KString key)) rule override =
     Inr (slot_at (plural_map cat t) (KString key) rule \<noteq> None \<and> \<not> override)"
    using plural_map_ok_lookup [OF store_ok_plural [OF ok, of cat]] rule_index_less [of rule]
    by (auto simp: conflicting_def slot_at_def slots_ok_def split: option.splits)
  show ?thesis
    using len conf rule_index_less [of rule]
    by (cases cat)
      (auto simp: AddCardinal_def AddOrdinal_def AddRange_def set_slot_def Let_def
        length_paramZero length_paramOne)
qed

lemma slots_of_length:
  "plural_map_ok rules m \<Longrightarrow> length (slots_of (map_of m k)) = 7"
  by (auto simp: slots_of_def slots_ok_def split: option.splits dest: plural_map_ok_lookup)

lemma plural_map_set_plural_map [simp]:
  "plural_map cat' (set_plural_map cat m t) = (if cat' = cat then m else plural_map cat' t)"
  by (cases cat; cases cat') simp_all

lemma set_plural_map_fields [simp]:
  "Translator (set_plural_map cat m t) = Translator t"
  "translations' (set_plural_map cat m t) = translations' t"
  by (cases cat; simp)+

lemma slot_at_set_slot:
  assumes "store_ok t"
  shows "slot_at (plural_map cat' (set_slot cat t k rule v)) k' rule' =
     (if cat' = cat \<and> k' = k \<and> rule' = rule then v else slot_at (plural_map cat' t) k' rule')"
proof -
  have len: "length (slots_of (map_of (plural_map cat t) k)) = 7"
    by (rule slots_of_length [OF store_ok_plural [OF assms]])
  show ?thesis
    using len rule_index_less [of rule] rule_index_less [of rule']
    by (auto simp: set_slot_def slot_at_def update_conv' rule_index_inj slots_of_def
        nth_list_update split: option.splits)
qed

lemma set_slot_fields [simp]:
  "Translator (set_slot cat t k rule v) = Translator t"
  "translations' (set_slot cat t k rule v) = translations' t"
  by (simp_all add: set_slot_def)

lemma plural_map_ok_update:
  assumes "plural_map_ok rules m" "is_KString k" "slots_ok rules v"
  shows "plural_map_ok rules (AList.update k v m)"
proof -
  have "set (AList.update k v m) \<subseteq> insert (k, v) (set m)"
    by (induction m) auto
  with assms show ?thesis
    by (auto simp: plural_map_ok_def distinct_update)
qed

lemma slots_ok_update:
  assumes "slots_ok rules xs" "v \<noteq> None \<longrightarrow> rule \<in> set rules"
  shows "slots_ok rules (xs[rule_index rule := v])"
  using assms rule_index_less [of rule]
  by (auto simp: slots_ok_def nth_list_update rule_index_inj)

lemma slots_ok_slots_of:
  "plural_map_ok rules m \<Longrightarrow> slots_ok rules (slots_of (map_of m k))"
  using rule_index_less
  by (auto simp: slots_of_def slots_ok_def split: option.splits dest: plural_map_ok_lookup)

lemma store_ok_set_slot:
  assumes "store_ok t" "is_KString k" "v \<noteq> None \<longrightarrow> rule \<in> set (Plurals cat (Translator t))"
  shows "store_ok (set_slot cat t k rule v)"
proof -
  have "plural_map_ok (Plurals cat (Translator t))
          (AList.update k ((slots_of (map_of (plural_map cat t) k))[rule_index rule := v])
             (plural_map cat t))"
    using assms
    by (intro plural_map_ok_update slots_ok_update slots_ok_slots_of store_ok_plural)
  with assms(1) show ?thesis
    by (cases cat) (simp_all add: store_ok_def set_slot_def)
qed

lemma store_ok_newTranslator: "store_ok (newTranslator l)"
  by (simp add: store_ok_def newTranslator_def plural_map_ok_def)

lemma store_ok_AddPlural:
  assumes "store_ok t" "AddPlural cat t k text rule override = Inr (t', err)"
  shows "store_ok t'"
proof (cases k)
  case (KString key)
  with assms show ?thesis
    by (auto simp: AddPlural_char is_KString_def split: if_splits option.splits
        intro!: store_ok_set_slot)
next
  case (KOther n)
  with assms show ?thesis
    by (cases cat) (auto simp: AddCardinal_def AddOrdinal_def AddRange_def)
qed

lemma AddPlural_no_panic:
  assumes "store_ok t"
  shows "\<exists>t' err. AddPlural cat t k text rule override = Inr (t', err)"
proof (cases k)
  case (KString key)
  with assms show ?thesis
    by (auto simp: AddPlural_char split: if_splits option.splits)
next
  case (KOther n)
  then show ?thesis
    by (cases cat) (auto simp: AddCardinal_def AddOrdinal_def AddRange_def)
qed

lemma store_ok_Add:
  assumes "store_ok t" "Add t k text override = (t', err)"
  shows "store_ok t'"
proof (cases k)
  case (KString key)
  have "set (AList.update k v m) \<subseteq> insert (k, v) (set m)" for v and m :: "(ikey \<times> transText) list"
    by (induction m) auto
  with assms KString show ?thesis
    by (fastforce simp: Add_def Let_def store_ok_def distinct_update is_KString_def
        split: if_splits sum.splits)
next
  case (KOther n)
  with assms show ?thesis by (auto simp: Add_def)
qed

lemma reachable_store_ok: "reachable t \<Longrightarrow> store_ok t"
  by (induction rule: reachable.induct)
     (auto intro: store_ok_newTranslator store_ok_Add store_ok_AddPlural)

lemma reachable_no_panic:
  "reachable t \<Longrightarrow> \<exists>t' err. AddPlural cat t k text rule override = Inr (t', err)"
  by (rule AddPlural_no_panic [OF reachable_store_ok])

subsection \<open>Offsets found by Index\<close>

lemma Index_ge: "- 1 \<le> Index t s"
  by (induction t) (auto simp: Let_def)

lemma Index_found:
  "Index t s \<noteq> - 1 \<Longrightarrow>
     0 \<le> Index t s \<and> Index t s + int (length s) \<le> int (length t) \<and>
     take (length s) (drop (nat (Index t s)) t) = s"
proof (induction t)
  case Nil
  then show ?case by (simp split: if_splits)
next
  case (Cons c cs)
  show ?case
  proof (cases "prefix s (c # cs)")
    case True
    then have "length s \<le> length (c # cs)" by (rule prefix_length_le)
    moreover have "take (length s) (c # cs) = s"
      using True by (metis append_eq_conv_conj prefix_def)
    ultimately show ?thesis using True by simp
  next
    case False
    with Cons.prems have ne: "Index cs s \<noteq> - 1" by (auto simp: Let_def split: if_splits)
    from Cons.IH [OF ne] False ne show ?thesis
      by (simp add: Let_def nat_add_distrib)
  qed
qed

lemma slice_Index:
  "Index t s \<noteq> - 1 \<Longrightarrow> slice t (Index t s) (Index t s + int (length s)) = Inr s"
  using Index_found [of t s] by (simp add: slice_def)

subsection \<open>Failed plural adds\<close>

lemma slot_at_valid:
  assumes "store_ok t" "slot_at (plural_map cat t) k rule = Some e"
  shows "rule \<in> set (Plurals cat (Translator t))"
  using assms(2) plural_map_ok_lookup [OF store_ok_plural [OF assms(1), of cat], of k]
  by (auto simp: slot_at_def slots_ok_def split: option.splits if_splits)

text \<open>
  Claim C3, amended. In every plural category, a call of \<open>AddCardinal\<close>, \<open>AddOrdinal\<close> or
  \<open>AddRange\<close> with a valid rule and a text that lacks a required placeholder (\<open>{0}\<close>, or
  \<open>{1}\<close> for a range), which is not rejected as a conflict (the slot is empty or
  \<open>override\<close> is set), returns the error of the category and leaves the slot at
  (key, rule) empty, in a translator that still satisfies the invariant.
\<close>

theorem failed_plural_add_clears_slot:
  assumes "store_ok t"
    and "rule \<in> set (Plurals cat (Translator t))"
    and "missing_param cat text = Some p"
    and "slot_at (plural_map cat t) (KString key) rule = None \<or> override"
  shows "\<exists>t'. AddPlural cat t (KString key) text rule override =
            Inr (t', Some (category_error cat
                   (ParameterNotFound p (Locale (Translator t)) key text))) \<and>
          slot_at (plural_map cat t') (KString key) rule = None \<and>
          store_ok t'"
  using assms
  by (auto simp: AddPlural_char slot_at_set_slot is_KString_def intro!: store_ok_set_slot)

theorem failed_plural_add_clears_slot_witness:
  "store_ok (newTranslator example_locale) \<and>
   PluralRuleOther \<in> set (Plurals Cardinal (Translator (newTranslator example_locale))) \<and>
   missing_param Cardinal ''days left'' = Some ''{0}'' \<and>
   slot_at (plural_map Cardinal (newTranslator example_locale)) (KString ''days'') PluralRuleOther = None \<and>
   (\<exists>t'. AddPlural Cardinal (newTranslator example_locale) (KString ''days'') ''days left''
            PluralRuleOther False =
            Inr (t', Some (category_error Cardinal
                   (ParameterNotFound ''{0}'' (Locale (Translator (newTranslator example_locale)))
                      ''days'' ''days left''))) \<and>
          slot_at (plural_map Cardinal t') (KString ''days'') PluralRuleOther = None \<and>
          store_ok t')"
proof -
  have 1: "store_ok (newTranslator example_locale)" by (rule store_ok_newTranslator)
  have 2: "PluralRuleOther \<in> set (Plurals Cardinal (Translator (newTranslator example_locale)))"
    by (simp add: newTranslator_def example_locale_def)
  have 3: "missing_param Cardinal ''days left'' = Some ''{0}''"
    by (simp add: paramZero_def)
  have 4: "slot_at (plural_map Cardinal (newTranslator example_locale)) (KString ''days'')
             PluralRuleOther = None"
    by (simp add: newTranslator_def slot_at_def)
  from failed_plural_add_clears_slot [OF 1 2 3 disjI1 [OF 4]] 1 2 3 4 show ?thesis
    by blast
qed

lemma days_store_reachable:
  "AddCardinal (newTranslator example_locale) (KString ''days'') ''{0} days left''
     PluralRuleOther False = Inr (days_store, None)"
  by (simp add: AddCardinal_def newTranslator_def example_locale_def conflicting_def
      slots_of_def paramZero_def days_store_def Let_def eval_nat_numeral)

text \<open>
  Without the condition on the conflict check, claim C3 fails: on an occupied slot and with
  \<open>override\<close> unset, the call with a text that lacks \<open>{0}\<close> returns
  \<open>ErrConflictingTranslation\<close>, and the slot keeps its entry.
\<close>

theorem failed_plural_add_conflict_counterexample:
  "PluralRuleOther \<in> set (PluralsCardinal (Translator days_store)) \<and>
   Index ''days left'' paramZero = - 1 \<and>
   AddCardinal days_store (KString ''days'') ''days left'' PluralRuleOther False =
     Inr (days_store,
          Some (ErrConflictingTranslation ''en'' ''days'' PluralRuleOther ''days left'')) \<and>
   map_of (cardinalTanslations days_store) (KString ''days'') =
     Some [None, None, None, None, None, None,
           Some \<lparr>text' = ''{0} days left'', indexes = [0, 3]\<rparr>]"
  by (simp add: AddCardinal_def example_locale_def conflicting_def
      slots_of_def paramZero_def days_store_def Let_def)

lemma store_ok_days_store: "store_ok days_store"
  using store_ok_AddPlural [OF store_ok_newTranslator, where cat = Cardinal] days_store_reachable
  by simp

text \<open>
  Claim C9. In every plural category, if the slot at (key, rule) holds an entry and
  \<open>AddCardinal\<close>, \<open>AddOrdinal\<close> or \<open>AddRange\<close> is called with \<open>override = true\<close> and a text
  that lacks a required placeholder, the call returns the error of the category and the
  slot is empty afterwards: the entry is erased, not restored, and the translator has
  changed.
\<close>

theorem override_with_bad_text_erases_entry:
  assumes "store_ok t"
    and "slot_at (plural_map cat t) (KString key) rule = Some old"
    and "missing_param cat text = Some p"
  shows "\<exists>t'. AddPlural cat t (KString key) text rule True =
            Inr (t', Some (category_error cat
                   (ParameterNotFound p (Locale (Translator t)) key text))) \<and>
          slot_at (plural_map cat t') (KString key) rule = None \<and>
          t' \<noteq> t"
proof -
  let ?t' = "set_slot cat t (KString key) rule None"
  have valid: "rule \<in> set (Plurals cat (Translator t))"
    by (rule slot_at_valid [OF assms(1,2)])
  have res: "AddPlural cat t (KString key) text rule True =
      Inr (?t', Some (category_error cat (ParameterNotFound p (Locale (Translator t)) key text)))"
    using valid assms(3) by (simp add: AddPlural_char [OF assms(1)])
  have empty: "slot_at (plural_map cat ?t') (KString key) rule = None"
    by (simp add: slot_at_set_slot [OF assms(1)])
  with assms(2) have "?t' \<noteq> t" by auto
  with res empty show ?thesis by blast
qed

theorem override_with_bad_text_erases_entry_witness:
  "store_ok days_store \<and>
   slot_at (plural_map Cardinal days_store) (KString ''days'') PluralRuleOther =
     Some \<lparr>text' = ''{0} days left'', indexes = [0, 3]\<rparr> \<and>
   missing_param Cardinal ''days left'' = Some ''{0}'' \<and>
   (\<exists>t'. AddPlural Cardinal days_store (KString ''days'') ''days left'' PluralRuleOther True =
            Inr (t', Some (category_error Cardinal
                   (ParameterNotFound ''{0}'' (Locale (Translator days_store)) ''days''
                      ''days left''))) \<and>
          slot_at (plural_map Cardinal t') (KString ''days'') PluralRuleOther = None \<and>
          t' \<noteq> days_store)"
proof -
  have 2: "slot_at (plural_map Cardinal days_store) (KString ''days'') PluralRuleOther =
     Some \<lparr>text' = ''{0} days left'', indexes = [0, 3]\<rparr>"
    by (simp add: slot_at_def days_store_def)
  have 3: "missing_param Cardinal ''days left'' = Some ''{0}''"
    by (simp add: paramZero_def)
  from override_with_bad_text_erases_entry [OF store_ok_days_store 2 3] store_ok_days_store 2 3
  show ?thesis by blast
qed

subsection \<open>Unbalanced braces\<close>

lemma AddPlural_not_MissingBrace:
  "AddPlural cat t k text rule override \<noteq> Inr (t', Some (ErrMissingBrace l k' x))"
  by (cases cat; cases k)
     (auto simp: AddCardinal_def AddOrdinal_def AddRange_def Let_def
       split: sum.splits bool.splits if_splits)

text \<open>
  Claim C5, amended. \<open>Add\<close> (the plain category) with a text whose counts of \<open>{\<close> and \<open>}\<close>
  differ fails with \<open>ErrMissingBrace\<close> and leaves the translator as it was, unless the
  call is rejected as a conflict first. \<open>AddCardinal\<close>, \<open>AddOrdinal\<close> and \<open>AddRange\<close> never
  return \<open>ErrMissingBrace\<close>: they do not count braces.
\<close>

theorem unbalanced_braces_plain_only:
  assumes "Count text CHR ''{'' \<noteq> Count text CHR ''}''"
    and "map_of (translations' t) (KString key) = None \<or> override"
  shows "Add t (KString key) text override =
           (t, Some (ErrMissingBrace (Locale (Translator t)) key text)) \<and>
         (\<forall>cat k rule t' l k' x.
            AddPlural cat t k text rule override \<noteq> Inr (t', Some (ErrMissingBrace l k' x)))"
  using assms by (auto simp: Add_def Let_def AddPlural_not_MissingBrace)

theorem unbalanced_braces_plain_only_witness:
  "Count ''a {0'' CHR ''{'' \<noteq> Count ''a {0'' CHR ''}'' \<and>
   map_of (translations' (newTranslator example_locale)) (KString ''greeting'') = None \<and>
   Add (newTranslator example_locale) (KString ''greeting'') ''a {0'' False =
     (newTranslator example_locale, Some (ErrMissingBrace ''en'' ''greeting'' ''a {0'')) \<and>
   (\<forall>cat k rule t' l k' x.
      AddPlural cat (newTranslator example_locale) k ''a {0'' rule False \<noteq>
        Inr (t', Some (ErrMissingBrace l k' x)))"
proof -
  have 1: "Count ''a {0'' CHR ''{'' \<noteq> Count ''a {0'' CHR ''}''"
    by (simp add: Count_def)
  have 2: "map_of (translations' (newTranslator example_locale)) (KString ''greeting'') = None"
    by (simp add: newTranslator_def)
  have 3: "Locale (Translator (newTranslator example_locale)) = ''en''"
    by (simp add: newTranslator_def example_locale_def)
  from unbalanced_braces_plain_only [OF 1 disjI1 [OF 2], of False] 1 2 3 show ?thesis
    by simp
qed

text \<open>
  For the plural categories claim C5 fails: \<open>AddCardinal\<close> with the text \<open>a {0\<close> returns the
  error of the category, and with the text \<open>{0} {\<close>, whose braces are unbalanced as well, it
  succeeds.
\<close>

theorem unbalanced_braces_plural_counterexample:
  "Count ''a {0'' CHR ''{'' \<noteq> Count ''a {0'' CHR ''}'' \<and>
   AddCardinal (newTranslator example_locale) (KString ''days'') ''a {0'' PluralRuleOther False =
     Inr ((newTranslator example_locale)
            \<lparr>cardinalTanslations :=
               [(KString ''days'', [None, None, None, None, None, None, None])]\<rparr>,
          Some (ErrCardinalTranslation (ParameterNotFound ''{0}'' ''en'' ''days'' ''a {0''))) \<and>
   Count ''{0} {'' CHR ''{'' \<noteq> Count ''{0} {'' CHR ''}'' \<and>
   AddCardinal (newTranslator example_locale) (KString ''days'') ''{0} {'' PluralRuleOther False =
     Inr ((newTranslator example_locale)
            \<lparr>cardinalTanslations :=
               [(KString ''days'',
                 [None, None, None, None, None, None,
                  Some \<lparr>text' = ''{0} {'', indexes = [0, 3]\<rparr>])]\<rparr>,
          None)"
  by (simp add: Count_def AddCardinal_def newTranslator_def example_locale_def conflicting_def
      slots_of_def paramZero_def Let_def eval_nat_numeral)

subsection \<open>The offsets of a range entry\<close>

text \<open>
  Claim C8, amended. \<open>AddRange\<close> succeeds only when \<open>{0}\<close> and \<open>{1}\<close> both occur in the
  text; the entry stored then has two offset pairs, which locate the first \<open>{0}\<close> and the
  first \<open>{1}\<close>. Nothing more is asked of the offset of \<open>{1}\<close>: it may be 0.
\<close>

theorem AddRange_success:
  assumes "AddRange t k text rule override = Inr (t', None)"
  shows "0 \<le> Index text paramZero \<and> 0 \<le> Index text paramOne \<and>
         slot_at (rangeTanslations t') k rule =
           Some \<lparr>text' = text,
                 indexes = [Index text paramZero, Index text paramZero + 3,
                            Index text paramOne, Index text paramOne + 3]\<rparr> \<and>
         slice text (Index text paramZero) (Index text paramZero + 3) = Inr paramZero \<and>
         slice text (Index text paramOne) (Index text paramOne + 3) = Inr paramOne"
proof -
  from assms have ne: "Index text paramZero \<noteq> - 1" "Index text paramOne \<noteq> - 1"
    by (cases k; auto simp: AddRange_def Let_def split: sum.splits bool.splits if_splits)+
  from assms have s: "slot_at (rangeTanslations t') k rule =
           Some \<lparr>text' = text,
                 indexes = [Index text paramZero, Index text paramZero + 3,
                            Index text paramOne, Index text paramOne + 3]\<rparr>"
    by (cases k)
       (auto simp: AddRange_def Let_def slot_at_def update_conv' length_paramZero length_paramOne
         split: sum.splits bool.splits if_splits)
  from ne Index_ge [of "text" paramZero] Index_ge [of "text" paramOne]
  have "0 \<le> Index text paramZero" "0 \<le> Index text paramOne" by linarith+
  with s slice_Index [OF ne(1)] slice_Index [OF ne(2)] show ?thesis
    by (simp add: length_paramZero length_paramOne)
qed

theorem AddRange_success_witness:
  "AddRange (newTranslator example_locale) (KString ''days'') ''{0}-{1} days'' PluralRuleOther False =
     Inr ((newTranslator example_locale)
            \<lparr>rangeTanslations :=
               [(KString ''days'',
                 [None, None, None, None, None, None,
                  Some \<lparr>text' = ''{0}-{1} days'', indexes = [0, 3, 4, 7]\<rparr>])]\<rparr>,
          None) \<and>
   Index ''{0}-{1} days'' paramZero = 0 \<and> Index ''{0}-{1} days'' paramOne = 4 \<and>
   slice ''{0}-{1} days'' 0 3 = Inr paramZero \<and>
   slice ''{0}-{1} days'' 4 7 = Inr paramOne"
proof -
  have 1: "AddRange (newTranslator example_locale) (KString ''days'') ''{0}-{1} days''
     PluralRuleOther False =
     Inr ((newTranslator example_locale)
            \<lparr>rangeTanslations :=
               [(KString ''days'',
                 [None, None, None, None, None, None,
                  Some \<lparr>text' = ''{0}-{1} days'', indexes = [0, 3, 4, 7]\<rparr>])]\<rparr>,
          None)"
    by (simp add: AddRange_def newTranslator_def example_locale_def conflicting_def
      slots_of_def paramZero_def paramOne_def Let_def eval_nat_numeral)
  have 2: "Index ''{0}-{1} days'' paramZero = 0" "Index ''{0}-{1} days'' paramOne = 4"
    by (simp_all add: paramZero_def paramOne_def)
  from AddRange_success [OF 1] 1 2 show ?thesis by simp
qed

text \<open>
  With the condition that \<open>{1}\<close> is not at the start, claim C8 fails: \<open>AddRange\<close> accepts
  the text \<open>{1}-{0}\<close>, where the offset of \<open>{1}\<close> is 0.
\<close>

theorem AddRange_param_one_at_start_counterexample:
  "AddRange (newTranslator example_locale) (KString ''days'') ''{1}-{0}'' PluralRuleOther False =
     Inr ((newTranslator example_locale)
            \<lparr>rangeTanslations :=
               [(KString ''days'',
                 [None, None, None, None, None, None,
                  Some \<lparr>text' = ''{1}-{0}'', indexes = [4, 7, 0, 3]\<rparr>])]\<rparr>,
          None) \<and>
   Index ''{1}-{0}'' paramOne = 0"
  by (simp add: AddRange_def newTranslator_def example_locale_def conflicting_def
      slots_of_def paramZero_def paramOne_def Let_def eval_nat_numeral)

subsection \<open>VerifyTranslations\<close>

lemma first_of_append: "first_of (xs @ ys) = (case first_of xs of None \<Rightarrow> first_of ys | Some x \<Rightarrow> Some x)"
  by (cases xs) (simp_all add: first_of_def)

lemma first_of_map: "first_of (map f xs) = map_option f (first_of xs)"
  by (cases xs) (simp_all add: first_of_def)

lemma verify_rules_char:
  "length v = 7 \<Longrightarrow>
     verify_rules v rules = Inr (first_of (filter (\<lambda>rule. v ! rule_index rule = None) rules))"
  by (induction rules) (simp_all add: first_of_def rule_index_less)

lemma verify_map_char:
  assumes "plural_map_ok rules' m"
  shows "verify_map l ty rules m = Inr (first_of (missing_in l ty rules m))"
  using assms
proof (induction m)
  case Nil
  then show ?case by (simp add: missing_in_def first_of_def)
next
  case (Cons a m)
  obtain k v where a: "a = (k, v)" by (cases a)
  from Cons.prems a obtain key where k: "k = KString key" and len: "length v = 7"
    by (cases k) (auto simp: plural_map_ok_def is_KString_def slots_ok_def)
  from Cons.prems have "plural_map_ok rules' m" by (auto simp: plural_map_ok_def)
  then have IH: "verify_map l ty rules m = Inr (first_of (missing_in l ty rules m))"
    by (rule Cons.IH)
  have split: "missing_in l ty rules (a # m) =
      map (\<lambda>rule. ErrMissingPluralTranslation l key rule ty)
        (filter (\<lambda>rule. v ! rule_index rule = None) rules) @ missing_in l ty rules m"
    by (simp add: missing_in_def a k key_string_def)
  show ?case
    unfolding split first_of_append first_of_map
    by (simp add: a k verify_rules_char [OF len] IH split: option.splits)
qed

lemma missing_in_Nil_iff: "missing_in l ty rules m = [] \<longleftrightarrow> complete rules m"
  by (auto simp: missing_in_def complete_def filter_empty_conv)

lemma first_of_None_iff: "first_of xs = None \<longleftrightarrow> xs = []"
  by (cases xs) (simp_all add: first_of_def)

text \<open>
  Claim C4. On a translator that satisfies the invariant, \<open>VerifyTranslations\<close> returns the
  first error of the traversal of the cardinal, the ordinal and the range map (entry by
  entry, and for each entry rule by rule over the list of rules of the locale): an
  \<open>ErrMissingPluralTranslation\<close> with the locale, the key, the rule and the name of the
  category (\<open>plural\<close> for the cardinal map, \<open>ordinal\<close>, \<open>range\<close>). It returns no error if and
  only if, in each of the three maps, every entry has a non-empty slot for every rule of
  the list of the locale for that category.
\<close>

theorem VerifyTranslations_first_missing:
  assumes "store_ok t"
  shows "VerifyTranslations t = Inr (first_of (all_missing t)) \<and>
         (VerifyTranslations t = Inr None \<longleftrightarrow>
            complete (PluralsCardinal (Translator t)) (cardinalTanslations t) \<and>
            complete (PluralsOrdinal (Translator t)) (ordinalTanslations t) \<and>
            complete (PluralsRange (Translator t)) (rangeTanslations t))"
proof -
  from assms have ok:
    "plural_map_ok (PluralsCardinal (Translator t)) (cardinalTanslations t)"
    "plural_map_ok (PluralsOrdinal (Translator t)) (ordinalTanslations t)"
    "plural_map_ok (PluralsRange (Translator t)) (rangeTanslations t)"
    by (simp_all add: store_ok_def)
  have v: "VerifyTranslations t = Inr (first_of (all_missing t))"
    by (simp add: VerifyTranslations_def all_missing_def first_of_append
        verify_map_char [OF ok(1)] verify_map_char [OF ok(2)] verify_map_char [OF ok(3)]
        split: option.splits)
  have "first_of (all_missing t) = None \<longleftrightarrow>
            complete (PluralsCardinal (Translator t)) (cardinalTanslations t) \<and>
            complete (PluralsOrdinal (Translator t)) (ordinalTanslations t) \<and>
            complete (PluralsRange (Translator t)) (rangeTanslations t)"
    by (simp add: first_of_None_iff all_missing_def missing_in_Nil_iff)
  with v show ?thesis by simp
qed

lemma days_store2_reachable:
  "AddCardinal days_store (KString ''days'') ''{0} day left'' PluralRuleOne False =
     Inr (days_store2, None)"
  by (simp add: AddCardinal_def example_locale_def conflicting_def
      slots_of_def paramZero_def days_store_def days_store2_def Let_def eval_nat_numeral)

lemma store_ok_days_store2: "store_ok days_store2"
  using store_ok_AddPlural [OF store_ok_days_store, where cat = Cardinal] days_store2_reachable
  by simp

theorem VerifyTranslations_first_missing_witness:
  "store_ok days_store \<and>
   VerifyTranslations days_store =
     Inr (Some (ErrMissingPluralTranslation ''en'' ''days'' PluralRuleOne ''plural'')) \<and>
   \<not> complete (PluralsCardinal (Translator days_store)) (cardinalTanslations days_store) \<and>
   store_ok days_store2 \<and>
   VerifyTranslations days_store2 = Inr None \<and>
   complete (PluralsCardinal (Translator days_store2)) (cardinalTanslations days_store2)"
proof -
  have 1: "first_of (all_missing days_store) =
     Some (ErrMissingPluralTranslation ''en'' ''days'' PluralRuleOne ''plural'')"
    by (simp add: all_missing_def missing_in_def first_of_def days_store_def example_locale_def
        key_string_def)
  have 2: "first_of (all_missing days_store2) = None"
    by (simp add: all_missing_def missing_in_def first_of_def days_store2_def example_locale_def
        key_string_def)
  have 3: "complete rules (ordinalTanslations days_store)"
    "complete rules (rangeTanslations days_store)"
    "complete rules (ordinalTanslations days_store2)"
    "complete rules (rangeTanslations days_store2)" for rules
    by (simp_all add: complete_def days_store_def days_store2_def)
  from VerifyTranslations_first_missing [OF store_ok_days_store]
    VerifyTranslations_first_missing [OF store_ok_days_store2] 1 2 3
    store_ok_days_store store_ok_days_store2
  show ?thesis by auto
qed

subsection \<open>T: templates with placeholders out of order, and too few parameters\<close>

lemma Itoa_0: "Itoa 0 = ''0''"
  by (simp add: Itoa.simps digit_def)

lemma Itoa_1: "Itoa (Suc 0) = ''1''"
  by (simp add: Itoa.simps digit_def)

lemma swapped_store_reachable:
  "Add (newTranslator example_locale) (KString ''pair'') ''{1} {0}'' False = (swapped_store, None)"
  by (simp add: Add_def newTranslator_def Count_def Itoa_0 Itoa_1 swapped_store_def)

lemma greeting_store_reachable:
  "Add (newTranslator example_locale) (KString ''greeting'') ''Hello, {0}!'' False =
     (greeting_store, None)"
  by (simp add: Add_def newTranslator_def Count_def Itoa_0 greeting_store_def)

text \<open>
  Claim C1, at the template \<open>{1} {0}\<close>. \<open>Add\<close> accepts it and stores the offsets in the order
  of the placeholder numbers, \<open>[4, 7, 0, 3]\<close>; \<open>T\<close> with two parameters then slices
  \<open>text[7:0]\<close> and panics, where the claim has it return \<open>b a\<close>.
\<close>

theorem T_out_of_order_panics:
  "Add (newTranslator example_locale) (KString ''pair'') ''{1} {0}'' False = (swapped_store, None) \<and>
   T swapped_store (KString ''pair'') [''a'', ''b''] = Inl (SliceBoundsOutOfRange 7 0)"
  by (simp add: swapped_store_reachable)
     (simp add: T_def swapped_store_def T_loop.simps slice_def)

lemma T_greeting: "T greeting_store (KString ''greeting'') [''World''] = Inr (''Hello, World!'', None)"
  by (simp add: T_def greeting_store_def T_loop.simps slice_def slice_from_def)

lemma Add_loop_length:
  "Add_loop text i n acc = Inr idxs \<Longrightarrow> length idxs = length acc + 2 * n"
  by (induction n arbitrary: i acc) (auto simp: Let_def split: if_splits)

lemma Add_loop_offsets:
  "Add_loop text i n acc = Inr idxs \<Longrightarrow> offsets_in text acc \<Longrightarrow> offsets_in text idxs"
proof (induction n arbitrary: i acc)
  case 0
  then show ?case by simp
next
  case (Suc n)
  let ?s = "''{'' @ Itoa i @ ''}''"
  from Suc.prems(1) have ne: "Index text ?s \<noteq> - 1"
    and rec: "Add_loop text (Suc i) n (acc @ [Index text ?s, Index text ?s + int (length ?s)]) = Inr idxs"
    by (auto simp: Let_def split: if_splits)
  from Index_found [OF ne] Suc.prems(2)
  have "offsets_in text (acc @ [Index text ?s, Index text ?s + int (length ?s)])"
    by (auto simp: offsets_in_def)
  with Suc.IH [OF rec] show ?case .
qed

lemma Add_entry:
  assumes "Add t (KString key) text override = (t', None)"
  shows "\<exists>idxs. map_of (translations' t') (KString key) = Some \<lparr>text' = text, indexes = idxs\<rparr> \<and>
           Add_loop text 0 (Count text CHR ''{'') [] = Inr idxs"
  using assms
  by (auto simp: Add_def Let_def update_conv' split: if_splits sum.splits)

lemma T_loop_short:
  assumes "i \<le> length (indexes tr)" "even (length (indexes tr) - i)"
    "count \<le> length params" "2 * (length params - count) < length (indexes tr) - i"
  shows "\<exists>p. T_loop tr params i start count b = Inl p"
  using assms
proof (induction tr params i start count b rule: T_loop.induct)
  case (1 tr params i start count b)
  from "1.prems" have lt: "i < length (indexes tr)" by linarith
  show ?case
  proof (cases "slice (text' tr) start (indexes tr ! i)")
    case (Inl p)
    with lt show ?thesis by (subst T_loop.simps) simp
  next
    case (Inr piece)
    show ?thesis
    proof (cases "count < length params")
      case False
      with lt Inr show ?thesis by (subst T_loop.simps) simp
    next
      case True
      from "1.prems" lt have lt2: "Suc i < length (indexes tr)"
        by (cases "length (indexes tr) - i = 1") (auto simp: Suc_lessI)
      have "\<exists>p. T_loop tr params (Suc (Suc i)) (indexes tr ! Suc i) (Suc count)
                 (b @ piece @ params ! count) = Inl p"
        using "1.prems" lt lt2 True
        by (intro "1.IH" [OF lt Inr]) auto
      with lt lt2 Inr True show ?thesis by (subst T_loop.simps) simp
    qed
  qed
qed

lemma T_loop_short_sorted:
  assumes "i \<le> length (indexes tr)" "even (length (indexes tr) - i)"
    "count \<le> length params" "2 * (length params - count) < length (indexes tr) - i"
    "sorted (indexes tr)" "offsets_in (text' tr) (indexes tr)"
    "0 \<le> start" "start \<le> indexes tr ! i"
  shows "T_loop tr params i start count b =
           Inl (IndexOutOfRange (int (length params)) (length params))"
  using assms
proof (induction tr params i start count b rule: T_loop.induct)
  case (1 tr params i start count b)
  from "1.prems" have lt: "i < length (indexes tr)" by linarith
  from "1.prems"(6) lt have "indexes tr ! i \<le> int (length (text' tr))"
    by (auto simp: offsets_in_def)
  with "1.prems"(7,8) obtain piece where Inr: "slice (text' tr) start (indexes tr ! i) = Inr piece"
    by (auto simp: slice_def)
  show ?case
  proof (cases "count < length params")
    case False
    with "1.prems"(3) have "count = length params" by simp
    with lt Inr show ?thesis by (subst T_loop.simps) simp
  next
    case True
    from "1.prems" lt have lt2: "Suc i < length (indexes tr)"
      by (cases "length (indexes tr) - i = 1") (auto simp: Suc_lessI)
    from "1.prems" lt2 True have lt3: "Suc (Suc i) < length (indexes tr)" by linarith
    from "1.prems"(6) lt2 have nonneg: "0 \<le> indexes tr ! Suc i"
      by (auto simp: offsets_in_def)
    from "1.prems"(5) lt3 have mono: "indexes tr ! Suc i \<le> indexes tr ! Suc (Suc i)"
      by (auto intro: sorted_nth_mono)
    have "T_loop tr params (Suc (Suc i)) (indexes tr ! Suc i) (Suc count)
               (b @ piece @ params ! count) =
            Inl (IndexOutOfRange (int (length params)) (length params))"
      using "1.prems" lt lt2 True nonneg mono
      by (intro "1.IH" [OF lt Inr]) auto
    with lt lt2 Inr True show ?thesis by (subst T_loop.simps) simp
  qed
qed

text \<open>
  Claim C10, amended. \<open>T\<close> has no arity check: for a plain entry stored by \<open>Add\<close>, a call
  of \<open>T\<close> with fewer parameters than the text has placeholders returns neither a string
  nor an error, it panics. When the offsets of the entry are ascending, the panic is the
  read \<open>params[count]\<close> past the end of the parameters.
\<close>

theorem T_short_params_panics:
  assumes "Add t (KString key) text override = (t', None)"
    and "length params < Count text CHR ''{''"
  shows "(\<exists>p. T t' (KString key) params = Inl p) \<and>
         (\<forall>tr. map_of (translations' t') (KString key) = Some tr \<longrightarrow> sorted (indexes tr) \<longrightarrow>
            T t' (KString key) params =
              Inl (IndexOutOfRange (int (length params)) (length params)))"
proof -
  from Add_entry [OF assms(1)] obtain idxs where
    e: "map_of (translations' t') (KString key) = Some \<lparr>text' = text, indexes = idxs\<rparr>"
    and l: "Add_loop text 0 (Count text CHR ''{'') [] = Inr idxs" by blast
  let ?tr = "\<lparr>text' = text, indexes = idxs\<rparr>"
  from Add_loop_length [OF l] have len: "length idxs = 2 * Count text CHR ''{''" by simp
  from Add_loop_offsets [OF l] have off: "offsets_in text idxs" by (simp add: offsets_in_def)
  from len assms(2) have short: "2 * (length params - 0) < length (indexes ?tr) - 0" by simp
  from len have ev: "even (length (indexes ?tr) - 0)" by simp
  from T_loop_short [of 0 ?tr 0 params 0 "[]", OF _ ev _ short]
  obtain p where "T_loop ?tr params 0 0 0 [] = Inl p" by auto
  then have 1: "T t' (KString key) params = Inl p" by (simp add: T_def e)
  have 2: "T t' (KString key) params =
              Inl (IndexOutOfRange (int (length params)) (length params))"
    if s: "sorted idxs"
  proof -
    from len assms(2) have "idxs \<noteq> []" by auto
    with off have "0 \<le> idxs ! 0" by (cases idxs) (auto simp: offsets_in_def)
    with T_loop_short_sorted [of 0 ?tr 0 params 0 "[]", OF _ ev _ short] s off
    have "T_loop ?tr params 0 0 0 [] =
            Inl (IndexOutOfRange (int (length params)) (length params))" by simp
    then show ?thesis by (simp add: T_def e)
  qed
  from 1 2 e show ?thesis by auto
qed

theorem T_short_params_panics_witness:
  "Add (newTranslator example_locale) (KString ''greeting'') ''Hello, {0}!'' False =
     (greeting_store, None) \<and>
   length ([] :: string list) < Count ''Hello, {0}!'' CHR ''{'' \<and>
   map_of (translations' greeting_store) (KString ''greeting'') =
     Some \<lparr>text' = ''Hello, {0}!'', indexes = [7, 10]\<rparr> \<and>
   sorted [7, 10 :: int] \<and>
   T greeting_store (KString ''greeting'') [] = Inl (IndexOutOfRange 0 0)"
proof -
  have 2: "length ([] :: string list) < Count ''Hello, {0}!'' CHR ''{''"
    by (simp add: Count_def)
  have 3: "map_of (translations' greeting_store) (KString ''greeting'') =
     Some \<lparr>text' = ''Hello, {0}!'', indexes = [7, 10]\<rparr>"
    by (simp add: greeting_store_def)
  from T_short_params_panics [OF greeting_store_reachable 2] 3 greeting_store_reachable 2
  show ?thesis by simp
qed

text \<open>
  For an entry whose offsets are not ascending, claim C10 fails: on the entry \<open>{1} {0}\<close>
  and with one parameter, \<open>T\<close> panics in the slice \<open>text[7:0]\<close>, before it reads a
  parameter past the end.
\<close>

theorem T_short_params_slice_counterexample:
  "map_of (translations' swapped_store) (KString ''pair'') =
     Some \<lparr>text' = ''{1} {0}'', indexes = [4, 7, 0, 3]\<rparr> \<and>
   T swapped_store (KString ''pair'') [''a''] = Inl (SliceBoundsOutOfRange 7 0)"
  by (simp add: T_def swapped_store_def T_loop.simps slice_def)

subsection \<open>T: templates with placeholders in ascending order\<close>

lemma drop_pair:
  assumes "Suc i < length xs"
  shows "drop i xs = xs ! i # xs ! Suc i # drop (Suc (Suc i)) xs"
  using assms by (simp add: Cons_nth_drop_Suc Suc_lessD)

lemma T_loop_cut:
  assumes "i \<le> length (indexes tr)" "even (length (indexes tr) - i)"
    "sorted (start # drop i (indexes tr))" "0 \<le> start" "start \<le> int (length (text' tr))"
    "offsets_in (text' tr) (indexes tr)"
    "length params = count + (length (indexes tr) - i) div 2"
  shows "\<exists>b' e. T_loop tr params i start count b = Inr (b', e) \<and>
           0 \<le> e \<and> e \<le> int (length (text' tr)) \<and>
           b' @ drop (nat e) (text' tr) =
             b @ interleave (cut (text' tr) start (drop i (indexes tr))) (drop count params)"
  using assms
proof (induction tr params i start count b rule: T_loop.induct)
  case (1 tr params i start count b)
  show ?case
  proof (cases "i < length (indexes tr)")
    case False
    with "1.prems" have "i = length (indexes tr)" "count = length params" by auto
    with "1.prems" show ?thesis by (subst T_loop.simps) simp
  next
    case lt: True
    from "1.prems" lt have lt2: "Suc i < length (indexes tr)"
      by (cases "length (indexes tr) - i = 1") (auto simp: Suc_lessI)
    let ?a = "indexes tr ! i" and ?b = "indexes tr ! Suc i"
    note dp = drop_pair [OF lt2]
    from "1.prems"(3) dp have ord: "start \<le> ?a" "?a \<le> ?b" "sorted (?b # drop (Suc (Suc i)) (indexes tr))"
      by auto
    from "1.prems"(6) lt lt2 have bnd: "?a \<le> int (length (text' tr))" "?b \<le> int (length (text' tr))"
      by (auto simp: offsets_in_def)
    from "1.prems"(4) ord have nn: "0 \<le> ?b" by linarith
    from "1.prems"(4) ord bnd
    have sl: "slice (text' tr) start ?a = Inr (take (nat (?a - start)) (drop (nat start) (text' tr)))"
      by (simp add: slice_def)
    from "1.prems"(7) lt2 have cnt: "count < length params" by linarith
    from "1.prems"(7) lt2 "1.prems"(2)
    have len': "length params = Suc count + (length (indexes tr) - Suc (Suc i)) div 2"
      by (simp add: Suc_diff_Suc Suc_lessD)
    from "1.prems"(2) lt2 have ev': "even (length (indexes tr) - Suc (Suc i))" by simp
    from "1.IH" [OF lt sl _ _ _ ev' ord(3) nn bnd(2) "1.prems"(6) len'] cnt lt2
    obtain b' e where
      r: "T_loop tr params (Suc (Suc i)) ?b (Suc count)
            (b @ take (nat (?a - start)) (drop (nat start) (text' tr)) @ params ! count) = Inr (b', e)"
      and e: "0 \<le> e" "e \<le> int (length (text' tr))"
      and eq: "b' @ drop (nat e) (text' tr) =
         (b @ take (nat (?a - start)) (drop (nat start) (text' tr)) @ params ! count) @
         interleave (cut (text' tr) ?b (drop (Suc (Suc i)) (indexes tr))) (drop (Suc count) params)"
      by auto
    have "T_loop tr params i start count b = Inr (b', e)"
      using lt lt2 sl cnt r by (subst T_loop.simps) simp
    moreover have "b @ interleave (cut (text' tr) start (drop i (indexes tr))) (drop count params) =
        b' @ drop (nat e) (text' tr)"
      using eq cnt by (simp add: dp Cons_nth_drop_Suc [symmetric])
    ultimately show ?thesis using e by simp
  qed
qed

lemma drop_split:
  assumes "0 \<le> x" "x \<le> y"
  shows "drop (nat x) tx = take (nat (y - x)) (drop (nat x) tx) @ drop (nat y) tx"
proof -
  from assms have "nat (y - x) + nat x = nat y" by linarith
  then have "drop (nat (y - x)) (drop (nat x) tx) = drop (nat y) tx" by simp
  with append_take_drop_id [of "nat (y - x)" "drop (nat x) tx"] show ?thesis by simp
qed

lemma cut_spans:
  assumes "sorted (start # idxs)" "0 \<le> start" "offsets_in tx idxs"
  shows "drop (nat start) tx = interleave (cut tx start idxs) (spans tx idxs)"
  using assms
proof (induction tx start idxs rule: cut.induct)
  case (1 tx start a b rest)
  from "1.prems" have o: "start \<le> a" "a \<le> b" "sorted (b # rest)" "offsets_in tx rest"
    by (simp_all add: offsets_in_def)
  from o "1.prems"(2) have nn: "0 \<le> a" "0 \<le> b" by linarith+
  from "1.IH" [OF o(3) nn(2) o(4)]
    drop_split [OF "1.prems"(2) o(1), of tx] drop_split [OF nn(1) o(2), of tx]
  show ?case by simp
qed simp_all

lemma spans_append:
  "even (length xs) \<Longrightarrow> spans tx (xs @ ys) = spans tx xs @ spans tx ys"
  by (induction tx xs rule: spans.induct) simp_all

lemma Add_loop_spans:
  "Add_loop tx i n acc = Inr idxs \<Longrightarrow> even (length acc) \<Longrightarrow>
     spans tx idxs = spans tx acc @ map placeholder [i..<i + n]"
proof (induction n arbitrary: i acc)
  case 0
  then show ?case by simp
next
  case (Suc n)
  let ?s = "''{'' @ Itoa i @ ''}''"
  from Suc.prems(1) have ne: "Index tx ?s \<noteq> - 1"
    and rec: "Add_loop tx (Suc i) n (acc @ [Index tx ?s, Index tx ?s + int (length ?s)]) = Inr idxs"
    by (auto simp: Let_def split: if_splits)
  from Index_found [OF ne]
  have sp: "spans tx [Index tx ?s, Index tx ?s + int (length ?s)] = [placeholder i]"
    by (simp add: placeholder_def nat_add_distrib)
  from Suc.prems(2) have ev: "even (length (acc @ [Index tx ?s, Index tx ?s + int (length ?s)]))"
    by simp
  from Suc.IH [OF rec ev] have
    "spans tx idxs = spans tx (acc @ [Index tx ?s, Index tx ?s + int (length ?s)]) @
       map placeholder [Suc i..<Suc i + n]" .
  also have "\<dots> = spans tx acc @ placeholder i # map placeholder [Suc i..<Suc i + n]"
    by (simp only: spans_append [OF Suc.prems(2)] sp) simp
  also have "placeholder i # map placeholder [Suc i..<Suc i + n] = map placeholder [i..<i + Suc n]"
    by (simp add: upt_rec [of i])
  finally show ?case .
qed

lemma length_cut:
  "even (length idxs) \<Longrightarrow> length (cut tx start idxs) = Suc (length idxs div 2)"
  by (induction tx start idxs rule: cut.induct) simp_all

lemma Count_append: "Count (xs @ ys) c = Count xs c + Count ys c"
  by (simp add: Count_def)

lemma Count_interleave:
  "length segs = Suc (length ps) \<Longrightarrow>
     Count (interleave segs ps) c =
       sum_list (map (\<lambda>s. Count s c) segs) + sum_list (map (\<lambda>p. Count p c) ps)"
  by (induction segs ps rule: interleave.induct) (simp_all add: Count_append)

lemma Count_0_iff: "Count s c = 0 \<longleftrightarrow> c \<notin> set s"
  by (auto simp: Count_def filter_empty_conv)

lemma Itoa_digits: "set (Itoa n) \<subseteq> set ''0123456789''"
proof (induction n rule: Itoa.induct)
  case (1 n)
  have d: "digit m \<in> set ''0123456789''" if "m < 10" for m
    unfolding digit_def using that by (intro nth_mem) simp
  show ?case
  proof (cases "n < 10")
    case True
    with d [of n] show ?thesis by (subst Itoa.simps) simp
  next
    case False
    with "1.IH" d [of "n mod 10"] show ?thesis by (subst Itoa.simps) simp
  qed
qed

lemma Count_placeholder:
  "Count (placeholder i) CHR ''{'' = 1" "Count (placeholder i) CHR ''}'' = 1"
proof -
  from Itoa_digits [of i] have "CHR ''{'' \<notin> set (Itoa i)" "CHR ''}'' \<notin> set (Itoa i)"
    by auto
  then have "Count (Itoa i) CHR ''{'' = 0" "Count (Itoa i) CHR ''}'' = 0"
    by (simp_all add: Count_0_iff)
  then show "Count (placeholder i) CHR ''{'' = 1" "Count (placeholder i) CHR ''}'' = 1"
    by (simp_all add: placeholder_def Count_append) (simp_all add: Count_def)
qed

lemma sum_list_Count_placeholders:
  "sum_list (map (\<lambda>p. Count p CHR ''{'') (map placeholder xs)) = length xs"
  "sum_list (map (\<lambda>p. Count p CHR ''}'') (map placeholder xs)) = length xs"
  by (induction xs) (simp_all add: Count_placeholder)

text \<open>
  What \<open>T\<close> does return: when the offsets of a stored entry are ascending, the text is a
  sequence of brace-free segments with the placeholders \<open>{0}\<close>, ..., \<open>{N-1}\<close> between them,
  each once and in this order, and \<open>T\<close> with \<open>N\<close> parameters returns the segments with the
  parameters between them.
\<close>

lemma T_renders_segments:
  assumes "Add t (KString key) tx override = (t', None)"
    and "map_of (translations' t') (KString key) = Some tr" and "sorted (indexes tr)"
    and "length params = Count tx CHR ''{''"
  shows "length (cut tx 0 (indexes tr)) = Suc (length params)"
    and "tx = interleave (cut tx 0 (indexes tr)) (map placeholder [0..<length params])"
    and "\<forall>s \<in> set (cut tx 0 (indexes tr)). CHR ''{'' \<notin> set s \<and> CHR ''}'' \<notin> set s"
    and "T t' (KString key) params = Inr (interleave (cut tx 0 (indexes tr)) params, None)"
proof -
  from Add_entry [OF assms(1)] assms(2) obtain idxs where
    tr: "tr = \<lparr>text' = tx, indexes = idxs\<rparr>"
    and l: "Add_loop tx 0 (Count tx CHR ''{'') [] = Inr idxs" by auto
  from assms(1) have bal: "Count tx CHR ''}'' = Count tx CHR ''{''"
    by (auto simp: Add_def Let_def split: if_splits)
  let ?N = "length params"
  let ?segs = "cut tx 0 idxs"
  from Add_loop_length [OF l] assms(4) have len: "length idxs = 2 * ?N" by simp
  from Add_loop_offsets [OF l] have off: "offsets_in tx idxs" by (simp add: offsets_in_def)
  from assms(3) off have srt: "sorted (0 # idxs)" by (auto simp: tr offsets_in_def)
  have lsegs: "length ?segs = Suc ?N" using len by (simp add: length_cut)
  from Add_loop_spans [OF l] assms(4) have sp: "spans tx idxs = map placeholder [0..<?N]" by simp
  from cut_spans [OF srt _ off] sp have dec: "tx = interleave ?segs (map placeholder [0..<?N])"
    by simp
  have cnt: "Count tx c = sum_list (map (\<lambda>s. Count s c) ?segs) +
      sum_list (map (\<lambda>p. Count p c) (map placeholder [0..<?N]))" for c
    using Count_interleave [of ?segs "map placeholder [0..<?N]" c] lsegs dec by simp
  from cnt [of "CHR ''{''"] cnt [of "CHR ''}''"] assms(4) bal
  have z: "sum_list (map (\<lambda>s. Count s CHR ''{'') ?segs) = 0"
    "sum_list (map (\<lambda>s. Count s CHR ''}'') ?segs) = 0"
    by (simp_all only: sum_list_Count_placeholders length_upt)
  then have nob: "\<forall>s \<in> set ?segs. CHR ''{'' \<notin> set s \<and> CHR ''}'' \<notin> set s"
    by (auto simp: Count_0_iff [symmetric])
  have p: "0 \<le> length (indexes tr)" "even (length (indexes tr) - 0)"
    "sorted (0 # drop 0 (indexes tr))" "(0::int) \<le> 0" "0 \<le> int (length (text' tr))"
    "offsets_in (text' tr) (indexes tr)"
    "length params = 0 + (length (indexes tr) - 0) div 2"
    using srt off len by (simp_all add: tr)
  from T_loop_cut [OF p, of "[]"]
  obtain b' e where "T_loop tr params 0 0 0 [] = Inr (b', e)"
    "0 \<le> e" "e \<le> int (length (text' tr))"
    "b' @ drop (nat e) (text' tr) =
       [] @ interleave (cut (text' tr) 0 (drop 0 (indexes tr))) (drop 0 params)"
    by blast
  then have r: "T_loop tr params 0 0 0 [] = Inr (b', e)"
    and e: "0 \<le> e" "e \<le> int (length tx)"
    and eq: "b' @ drop (nat e) tx = interleave ?segs params"
    by (simp_all add: tr)
  from e have "slice_from tx e = Inr (drop (nat e) tx)"
    by (simp add: slice_from_def slice_def)
  with r eq have res: "T t' (KString key) params = Inr (interleave ?segs params, None)"
    by (simp add: T_def assms(2) tr)
  have i: "indexes tr = idxs" by (simp add: tr)
  from lsegs show "length (cut tx 0 (indexes tr)) = Suc (length params)"
    by (simp only: i)
  from dec show "tx = interleave (cut tx 0 (indexes tr)) (map placeholder [0..<length params])"
    by (simp only: i)
  from nob show "\<forall>s \<in> set (cut tx 0 (indexes tr)). CHR ''{'' \<notin> set s \<and> CHR ''}'' \<notin> set s"
    by (simp only: i)
  from res show "T t' (KString key) params = Inr (interleave (cut tx 0 (indexes tr)) params, None)"
    by (simp only: i)
qed

lemma T_renders_ascending:
  assumes "Add t (KString key) tx override = (t', None)"
    and "map_of (translations' t') (KString key) = Some tr" and "sorted (indexes tr)"
    and "length params = Count tx CHR ''{''"
  shows "\<exists>segs. length segs = Suc (length params) \<and>
           tx = interleave segs (map placeholder [0..<length params]) \<and>
           (\<forall>s \<in> set segs. CHR ''{'' \<notin> set s \<and> CHR ''}'' \<notin> set s) \<and>
           T t' (KString key) params = Inr (interleave segs params, None)"
  using T_renders_segments [OF assms] by blast

text \<open>
  The other case: the two offsets of one placeholder are ascending, so when the offsets of
  a stored entry are not ascending, some placeholder starts before the end of the one
  numbered before it, and \<open>T\<close> panics there, or earlier on a missing parameter, whatever
  the parameters are.
\<close>

lemma Add_loop_pairs:
  "Add_loop tx i n acc = Inr idxs \<Longrightarrow> even (length acc) \<Longrightarrow>
     (\<forall>j. Suc (2 * j) < length acc \<longrightarrow> acc ! (2 * j) \<le> acc ! Suc (2 * j)) \<Longrightarrow>
     (\<forall>j. Suc (2 * j) < length idxs \<longrightarrow> idxs ! (2 * j) \<le> idxs ! Suc (2 * j))"
proof (induction n arbitrary: i acc)
  case 0
  then show ?case by simp
next
  case (Suc n)
  let ?s = "''{'' @ Itoa i @ ''}''"
  let ?acc = "acc @ [Index tx ?s, Index tx ?s + int (length ?s)]"
  from Suc.prems(1) have rec: "Add_loop tx (Suc i) n ?acc = Inr idxs"
    by (auto simp: Let_def split: if_splits)
  from Suc.prems(2) have ev: "even (length ?acc)" by simp
  have "?acc ! (2 * j) \<le> ?acc ! Suc (2 * j)" if "Suc (2 * j) < length ?acc" for j
  proof (cases "Suc (2 * j) < length acc")
    case True
    with Suc.prems(3) show ?thesis by (simp add: nth_append)
  next
    case False
    with that Suc.prems(2) have "2 * j = length acc"
      by (auto elim!: evenE)
    then show ?thesis by (simp add: nth_append)
  qed
  with Suc.IH [OF rec ev] show ?case by blast
qed

lemma T_loop_unsorted:
  assumes "i \<le> length (indexes tr)" "even i" "even (length (indexes tr))"
    "\<not> sorted (start # drop i (indexes tr))"
    "\<forall>j. Suc (2 * j) < length (indexes tr) \<longrightarrow> indexes tr ! (2 * j) \<le> indexes tr ! Suc (2 * j)"
  shows "\<exists>p. T_loop tr params i start count b = Inl p"
  using assms
proof (induction tr params i start count b rule: T_loop.induct)
  case (1 tr params i start count b)
  from "1.prems"(1,4) have lt: "i < length (indexes tr)"
    by (cases "i = length (indexes tr)") auto
  from "1.prems"(2,3) have "Suc i \<noteq> length (indexes tr)"
    by (metis even_Suc)
  with lt have lt2: "Suc i < length (indexes tr)" by simp
  let ?a = "indexes tr ! i" and ?b = "indexes tr ! Suc i"
  from "1.prems"(2) obtain j where j: "i = 2 * j" by (auto elim: evenE)
  with "1.prems"(5) lt2 have ab: "?a \<le> ?b" by simp
  show ?case
  proof (cases "slice (text' tr) start ?a")
    case (Inl p)
    with lt show ?thesis by (subst T_loop.simps) simp
  next
    case (Inr piece)
    then have sa: "start \<le> ?a" by (auto simp: slice_def split: if_splits)
    show ?thesis
    proof (cases "count < length params")
      case False
      with lt Inr show ?thesis by (subst T_loop.simps) simp
    next
      case True
      from "1.prems"(4) sa ab have ns: "\<not> sorted (?b # drop (Suc (Suc i)) (indexes tr))"
        by (simp add: drop_pair [OF lt2]) (use order_trans in fastforce)
      have "\<exists>p. T_loop tr params (Suc (Suc i)) ?b (Suc count) (b @ piece @ params ! count) = Inl p"
        using "1.prems" lt2 ns True
        by (intro "1.IH" [OF lt Inr]) auto
      with lt lt2 Inr True show ?thesis by (subst T_loop.simps) simp
    qed
  qed
qed

lemma T_unsorted_panics:
  assumes "Add t (KString key) tx override = (t', None)"
    and "map_of (translations' t') (KString key) = Some tr" and "\<not> sorted (indexes tr)"
  shows "\<exists>p. T t' (KString key) params = Inl p"
proof -
  from Add_entry [OF assms(1)] assms(2) obtain idxs where
    tr: "tr = \<lparr>text' = tx, indexes = idxs\<rparr>"
    and l: "Add_loop tx 0 (Count tx CHR ''{'') [] = Inr idxs" by auto
  from Add_loop_length [OF l] have ev: "even (length (indexes tr))" by (simp add: tr)
  from Add_loop_pairs [OF l] have pairs:
    "\<forall>j. Suc (2 * j) < length (indexes tr) \<longrightarrow> indexes tr ! (2 * j) \<le> indexes tr ! Suc (2 * j)"
    by (simp add: tr)
  from assms(3) have ns: "\<not> sorted (0 # drop 0 (indexes tr))" by simp
  from T_loop_unsorted [OF _ _ ev ns pairs, of params 0 "[]"]
  obtain p where "T_loop tr params 0 0 0 [] = Inl p" by auto
  then show ?thesis by (simp add: T_def assms(2))
qed

text \<open>
  \<open>T\<close> reads one parameter for each placeholder of the entry, and no other: parameters
  beyond the number of the placeholders change nothing.
\<close>

lemma T_loop_take:
  assumes "n \<le> length params" "count + (length (indexes tr) - i + 1) div 2 \<le> n"
  shows "T_loop tr (take n params) i start count b = T_loop tr params i start count b"
  using assms
proof (induction tr params i start count b rule: T_loop.induct)
  case (1 tr params i start count b)
  show ?case
  proof (cases "i < length (indexes tr)")
    case False
    then show ?thesis by (simp add: T_loop.simps [of tr _ i])
  next
    case lt: True
    with "1.prems" have c: "count < n" "count < length params" by auto
    show ?thesis
    proof (cases "slice (text' tr) start (indexes tr ! i)")
      case (Inl p)
      with lt show ?thesis by (simp add: T_loop.simps [of tr _ i])
    next
      case (Inr piece)
      show ?thesis
      proof (cases "Suc i < length (indexes tr)")
        case False
        with lt Inr c "1.prems"(1) show ?thesis by (simp add: T_loop.simps [of tr _ i])
      next
        case lt2: True
        with "1.prems"(2) have "Suc count + (length (indexes tr) - Suc (Suc i) + 1) div 2 \<le> n"
          by auto
        from "1.IH" [OF lt Inr _ _ "1.prems"(1) this] c lt2
        have "T_loop tr (take n params) (Suc (Suc i)) (indexes tr ! Suc i) (Suc count)
                 (b @ piece @ params ! count) =
              T_loop tr params (Suc (Suc i)) (indexes tr ! Suc i) (Suc count)
                 (b @ piece @ params ! count)"
          by simp
        with lt lt2 Inr c "1.prems"(1) show ?thesis
          by (simp add: T_loop.simps [of tr _ i])
      qed
    qed
  qed
qed

lemma T_take:
  assumes "Add t (KString key) tx override = (t', None)"
    and "Count tx CHR ''{'' \<le> length params"
  shows "T t' (KString key) (take (Count tx CHR ''{'') params) = T t' (KString key) params"
proof -
  from Add_entry [OF assms(1)] obtain idxs where
    e: "map_of (translations' t') (KString key) = Some \<lparr>text' = tx, indexes = idxs\<rparr>"
    and l: "Add_loop tx 0 (Count tx CHR ''{'') [] = Inr idxs" by blast
  from Add_loop_length [OF l] have len: "length idxs = 2 * Count tx CHR ''{''" by simp
  have "T_loop \<lparr>text' = tx, indexes = idxs\<rparr> (take (Count tx CHR ''{'') params) 0 0 0 [] =
        T_loop \<lparr>text' = tx, indexes = idxs\<rparr> params 0 0 0 []"
    using assms(2) len by (intro T_loop_take) simp_all
  then show ?thesis by (simp add: T_def e)
qed

subsection \<open>Conflict and override\<close>

lemma splice1_compiled:
  assumes "Index text paramZero \<noteq> - 1"
  shows "splice1 \<lparr>text' = text, indexes = [Index text paramZero, Index text paramZero + 3]\<rparr> param =
     Inr (take (nat (Index text paramZero)) text @ param @
          drop (nat (Index text paramZero) + 3) text)"
  using Index_found [OF assms]
  by (simp add: splice1_def at_def slice_to_def slice_from_def slice_def length_paramZero
      nat_add_distrib)

lemma splice2_compiled:
  assumes "Index text paramZero \<noteq> - 1" "Index text paramOne \<noteq> - 1"
    "Index text paramZero + 3 \<le> Index text paramOne"
  shows "splice2 \<lparr>text' = text, indexes = [Index text paramZero, Index text paramZero + 3,
                                           Index text paramOne, Index text paramOne + 3]\<rparr>
           param1 param2 =
     Inr (take (nat (Index text paramZero)) text @ param1 @
          take (nat (Index text paramOne) - (nat (Index text paramZero) + 3))
            (drop (nat (Index text paramZero) + 3) text) @ param2 @
          drop (nat (Index text paramOne) + 3) text)"
proof -
  from Index_found [OF assms(1)] Index_found [OF assms(2)] assms(3)
  show ?thesis
    by (simp add: splice2_def at_def slice_to_def slice_from_def slice_def length_paramZero
      length_paramOne nat_add_distrib nat_diff_distrib)
qed

lemma deref_slot:
  "map_of m k = Some tarr \<Longrightarrow> slot_at m k rule = Some tr \<Longrightarrow> deref tarr rule = Inr tr"
  by (auto simp: slot_at_def deref_def split: if_splits)

lemma render_plural_slot:
  assumes "slot_at (plural_map cat t) (KString key) rule = Some tr"
    and "selected_rule cat (Translator t) num1 digits1 num2 digits2 = rule"
  shows "render_plural cat t (KString key) num1 digits1 num2 digits2 param1 param2 =
     (case (if cat = Range then splice2 tr param1 param2 else splice1 tr param1) of
        Inl p \<Rightarrow> Inl p | Inr b \<Rightarrow> Inr (b, None))"
proof -
  from assms(1) obtain tarr where m: "map_of (plural_map cat t) (KString key) = Some tarr"
    by (auto simp: slot_at_def split: option.splits)
  from deref_slot [OF m assms(1)] have d: "deref tarr rule = Inr tr" .
  from m d assms(2) show ?thesis
    by (cases cat) (auto simp: C_def O'_def R_def split: sum.splits)
qed

lemma missing_param_None:
  "missing_param cat text = None \<Longrightarrow>
     Index text paramZero \<noteq> - 1 \<and> (cat = Range \<longrightarrow> Index text paramOne \<noteq> - 1)"
  by (cases cat) (auto split: if_splits)

lemma render_compiled:
  assumes "missing_param cat text = None"
    and "cat = Range \<longrightarrow> Index text paramZero + 3 \<le> Index text paramOne"
  shows "(if cat = Range then splice2 (compiled cat text) param1 param2
          else splice1 (compiled cat text) param1) = Inr (spliced cat text param1 param2)"
  using missing_param_None [OF assms(1)] assms(2)
  by (cases cat) (simp_all add: splice1_compiled splice2_compiled Let_def)

text \<open>
  Two placeholders do not overlap: when \<open>{0}\<close> starts before \<open>{1}\<close>, it ends before it.
\<close>

lemma placeholders_apart:
  assumes "Index tx paramZero \<noteq> - 1" "Index tx paramOne \<noteq> - 1"
    and "Index tx paramZero < Index tx paramOne"
  shows "Index tx paramZero + 3 \<le> Index tx paramOne"
proof -
  define i0 where "i0 = nat (Index tx paramZero)"
  define i1 where "i1 = nat (Index tx paramOne)"
  from Index_found [OF assms(1)] have f0: "Index tx paramZero = int i0" "i0 + 3 \<le> length tx"
    "take 3 (drop i0 tx) = ''{0}''"
    by (auto simp: i0_def paramZero_def numeral_3_eq_3)
  from Index_found [OF assms(2)] have f1: "Index tx paramOne = int i1" "i1 + 3 \<le> length tx"
    "take 3 (drop i1 tx) = ''{1}''"
    by (auto simp: i1_def paramOne_def numeral_3_eq_3)
  have n: "take 3 (drop i tx) ! j = tx ! (i + j)" if "j < 3" "i + 3 \<le> length tx" for i j
    using that by simp
  from n [of 1 i0] n [of 2 i0] f0 have a: "tx ! (i0 + 1) = CHR ''0''" "tx ! (i0 + 2) = CHR ''}''"
    by simp_all
  from n [of 0 i1] f1 have b: "tx ! i1 = CHR ''{''" by simp
  from a b have "i1 \<noteq> i0 + 1" "i1 \<noteq> i0 + 2" by auto
  with assms(3) f0(1) f1(1) show ?thesis by simp
qed

text \<open>
  Claim C6, amended. (1) \<open>Add\<close> on a key that has an entry, with \<open>override = false\<close>,
  fails with \<open>ErrConflictingTranslation\<close> and changes nothing. (2) So does a plural add on
  an occupied slot, and its error carries the rule. (3) If \<open>Add\<close> with \<open>override = true\<close>
  returns no error, the entry of the key is the new text; and when the offsets of that
  entry are ascending and there is a parameter for each placeholder, the new text is the
  brace-free segments \<open>cut text 0 (indexes tr)\<close> with \<open>{0}\<close>, \<open>{1}\<close>, ... between them, and
  \<open>T\<close> returns these segments with the parameters between them. (4) If a plural add with
  \<open>override = true\<close> returns no error, the slot holds the entry compiled from the new
  text, and the renderer of the category, for numbers that select the rule, returns the new
  text with the parameters in place of the placeholders; for a range, when \<open>{0}\<close> comes
  before \<open>{1}\<close>.
\<close>

theorem conflict_and_override:
  "(map_of (translations' t) (KString key) \<noteq> None \<longrightarrow>
      Add t (KString key) text False =
        (t, Some (ErrConflictingTranslation (Locale (Translator t)) key PluralRuleUnknown text))) \<and>
   (store_ok t \<longrightarrow> slot_at (plural_map cat t) (KString key) rule \<noteq> None \<longrightarrow>
      AddPlural cat t (KString key) text rule False =
        Inr (t, Some (ErrConflictingTranslation (Locale (Translator t)) key rule text))) \<and>
   (\<forall>t'. Add t (KString key) text True = (t', None) \<longrightarrow>
      (\<exists>idxs. map_of (translations' t') (KString key) = Some \<lparr>text' = text, indexes = idxs\<rparr>) \<and>
      (\<forall>tr params.
         map_of (translations' t') (KString key) = Some tr \<longrightarrow> sorted (indexes tr) \<longrightarrow>
         Count text CHR ''{'' \<le> length params \<longrightarrow>
         text = interleave (cut text 0 (indexes tr))
                  (map placeholder [0..<Count text CHR ''{'']) \<and>
         (\<forall>s \<in> set (cut text 0 (indexes tr)). CHR ''{'' \<notin> set s \<and> CHR ''}'' \<notin> set s) \<and>
         T t' (KString key) params =
           Inr (interleave (cut text 0 (indexes tr)) (take (Count text CHR ''{'') params),
                None))) \<and>
   (\<forall>t'. store_ok t \<longrightarrow> AddPlural cat t (KString key) text rule True = Inr (t', None) \<longrightarrow>
      slot_at (plural_map cat t') (KString key) rule = Some (compiled cat text) \<and>
      (\<forall>num1 digits1 num2 digits2 param1 param2.
         selected_rule cat (Translator t) num1 digits1 num2 digits2 = rule \<longrightarrow>
         (cat = Range \<longrightarrow> Index text paramZero < Index text paramOne) \<longrightarrow>
         render_plural cat t' (KString key) num1 digits1 num2 digits2 param1 param2 =
           Inr (spliced cat text param1 param2, None)))"
proof (intro conjI impI allI)
  assume "map_of (translations' t) (KString key) \<noteq> None"
  then show "Add t (KString key) text False =
        (t, Some (ErrConflictingTranslation (Locale (Translator t)) key PluralRuleUnknown text))"
    by (simp add: Add_def)
next
  assume ok: "store_ok t" and "slot_at (plural_map cat t) (KString key) rule \<noteq> None"
  then obtain old where old: "slot_at (plural_map cat t) (KString key) rule = Some old" by auto
  from slot_at_valid [OF ok old] old
  show "AddPlural cat t (KString key) text rule False =
        Inr (t, Some (ErrConflictingTranslation (Locale (Translator t)) key rule text))"
    by (simp add: AddPlural_char [OF ok])
next
  fix t' assume a: "Add t (KString key) text True = (t', None)"
  from Add_entry [OF a]
  show "\<exists>idxs. map_of (translations' t') (KString key) = Some \<lparr>text' = text, indexes = idxs\<rparr>"
    by blast
next
  fix t' tr and params :: "string list"
  assume a: "Add t (KString key) text True = (t', None)"
    and e: "map_of (translations' t') (KString key) = Some tr"
    and srt: "sorted (indexes tr)" and n: "Count text CHR ''{'' \<le> length params"
  let ?N = "Count text CHR ''{''"
  from n have len: "length (take ?N params) = ?N" by simp
  note seg = T_renders_segments [OF a e srt len]
  from seg(2) len
  show "text = interleave (cut text 0 (indexes tr)) (map placeholder [0..<Count text CHR ''{''])"
    by (simp only:)
  from seg(3)
  show "\<forall>s \<in> set (cut text 0 (indexes tr)). CHR ''{'' \<notin> set s \<and> CHR ''}'' \<notin> set s" .
  from seg(4) T_take [OF a n]
  show "T t' (KString key) params =
           Inr (interleave (cut text 0 (indexes tr)) (take (Count text CHR ''{'') params), None)"
    by (simp only:)
next
  fix t' assume ok: "store_ok t"
    and a: "AddPlural cat t (KString key) text rule True = Inr (t', None)"
  from a show "slot_at (plural_map cat t') (KString key) rule = Some (compiled cat text)"
    by (auto simp: AddPlural_char [OF ok] slot_at_set_slot [OF ok] split: if_splits option.splits)
next
  fix t' num1 digits1 num2 digits2 param1 param2
  assume ok: "store_ok t"
    and a: "AddPlural cat t (KString key) text rule True = Inr (t', None)"
    and sel: "selected_rule cat (Translator t) num1 digits1 num2 digits2 = rule"
    and bef: "cat = Range \<longrightarrow> Index text paramZero < Index text paramOne"
  from a have t': "t' = set_slot cat t (KString key) rule (Some (compiled cat text))"
    and mp: "missing_param cat text = None"
    by (auto simp: AddPlural_char [OF ok] split: if_splits option.splits)
  from missing_param_None [OF mp] bef
  have ord: "cat = Range \<longrightarrow> Index text paramZero + 3 \<le> Index text paramOne"
    by (auto intro: placeholders_apart)
  have s: "slot_at (plural_map cat t') (KString key) rule = Some (compiled cat text)"
    by (simp add: t' slot_at_set_slot [OF ok])
  have l: "Translator t' = Translator t" by (simp add: t')
  from render_plural_slot [OF s, of num1 digits1 num2 digits2 param1 param2] sel l
    render_compiled [OF mp ord, of param1 param2]
  show "render_plural cat t' (KString key) num1 digits1 num2 digits2 param1 param2 =
           Inr (spliced cat text param1 param2, None)"
    by simp
qed

lemma greeting_store2_reachable:
  "Add greeting_store (KString ''greeting'') ''Hi, {0}!'' True = (greeting_store2, None)"
  by (simp add: Add_def Count_def Itoa_0 greeting_store_def greeting_store2_def)

lemma days_store3_reachable:
  "AddCardinal days_store (KString ''days'') ''{0} days'' PluralRuleOther True =
     Inr (days_store3, None)"
  by (simp add: AddCardinal_def example_locale_def conflicting_def
      slots_of_def paramZero_def days_store_def days_store3_def Let_def eval_nat_numeral)

lemma range_store_reachable:
  "AddRange (newTranslator example_locale) (KString ''days'') ''{0}-{1} days'' PluralRuleOther False =
     Inr (range_store, None)"
  by (simp add: AddRange_def newTranslator_def example_locale_def conflicting_def
      slots_of_def paramZero_def paramOne_def Let_def eval_nat_numeral range_store_def)

lemma store_ok_range_store: "store_ok range_store"
  using store_ok_AddPlural [OF store_ok_newTranslator, where cat = Range] range_store_reachable
  by simp

lemma range_store2_reachable:
  "AddRange range_store (KString ''days'') ''{0} to {1}'' PluralRuleOther True =
     Inr (range_store2, None)"
  by (simp add: AddRange_def example_locale_def conflicting_def
      slots_of_def paramZero_def paramOne_def Let_def eval_nat_numeral range_store_def
      range_store2_def)

theorem conflict_and_override_witness:
  "map_of (translations' greeting_store) (KString ''greeting'') \<noteq> None \<and>
   Add greeting_store (KString ''greeting'') ''Hi, {0}!'' False =
     (greeting_store,
      Some (ErrConflictingTranslation ''en'' ''greeting'' PluralRuleUnknown ''Hi, {0}!'')) \<and>
   Add greeting_store (KString ''greeting'') ''Hi, {0}!'' True = (greeting_store2, None) \<and>
   map_of (translations' greeting_store2) (KString ''greeting'') =
     Some \<lparr>text' = ''Hi, {0}!'', indexes = [4, 7]\<rparr> \<and>
   sorted [4, 7 :: int] \<and> Count ''Hi, {0}!'' CHR ''{'' \<le> length [''World''] \<and>
   T greeting_store2 (KString ''greeting'') [''World''] = Inr (''Hi, World!'', None) \<and>
   store_ok days_store \<and>
   slot_at (plural_map Cardinal days_store) (KString ''days'') PluralRuleOther \<noteq> None \<and>
   AddPlural Cardinal days_store (KString ''days'') ''{0} days'' PluralRuleOther False =
     Inr (days_store,
          Some (ErrConflictingTranslation ''en'' ''days'' PluralRuleOther ''{0} days'')) \<and>
   AddPlural Cardinal days_store (KString ''days'') ''{0} days'' PluralRuleOther True =
     Inr (days_store3, None) \<and>
   selected_rule Cardinal (Translator days_store) 5 1 0 0 = PluralRuleOther \<and>
   render_plural Cardinal days_store3 (KString ''days'') 5 1 0 0 ''5.0'' [] =
     Inr (''5.0 days'', None) \<and>
   store_ok range_store \<and>
   AddPlural Range range_store (KString ''days'') ''{0} to {1}'' PluralRuleOther True =
     Inr (range_store2, None) \<and>
   selected_rule Range (Translator range_store) 1 0 5 0 = PluralRuleOther \<and>
   Index ''{0} to {1}'' paramZero < Index ''{0} to {1}'' paramOne \<and>
   render_plural Range range_store2 (KString ''days'') 1 0 5 0 ''1'' ''5'' =
     Inr (''1 to 5'', None)"
proof -
  have 1: "map_of (translations' greeting_store) (KString ''greeting'') \<noteq> None"
    by (simp add: greeting_store_def)
  have 2: "slot_at (plural_map Cardinal days_store) (KString ''days'') PluralRuleOther \<noteq> None"
    by (simp add: slot_at_def days_store_def)
  have 3: "AddPlural Cardinal days_store (KString ''days'') ''{0} days'' PluralRuleOther True =
     Inr (days_store3, None)"
    by (simp add: days_store3_reachable)
  have 4: "selected_rule Cardinal (Translator days_store) 5 1 0 0 = PluralRuleOther"
    by (simp add: days_store_def example_locale_def)
  have 5: "Locale (Translator greeting_store) = ''en''" "Locale (Translator days_store) = ''en''"
    by (simp_all add: greeting_store_def days_store_def example_locale_def)
  have 6: "map_of (translations' greeting_store2) (KString ''greeting'') =
     Some \<lparr>text' = ''Hi, {0}!'', indexes = [4, 7]\<rparr>"
    by (simp add: greeting_store2_def)
  have 7: "spliced Cardinal ''{0} days'' ''5.0'' [] = ''5.0 days''"
    by (simp add: paramZero_def)
  have 8: "sorted (indexes \<lparr>text' = ''Hi, {0}!'', indexes = [4, 7]\<rparr>)"
    "sorted [4, 7 :: int]"
    by simp_all
  have 9: "Count ''Hi, {0}!'' CHR ''{'' \<le> length [''World'']"
    by (simp add: Count_def)
  have 10: "interleave (cut ''Hi, {0}!'' 0 (indexes \<lparr>text' = ''Hi, {0}!'', indexes = [4, 7]\<rparr>))
              (take (Count ''Hi, {0}!'' CHR ''{'') [''World'']) = ''Hi, World!''"
    by (simp add: Count_def)
  have 11: "AddPlural Range range_store (KString ''days'') ''{0} to {1}'' PluralRuleOther True =
     Inr (range_store2, None)"
    by (simp add: range_store2_reachable)
  have 12: "selected_rule Range (Translator range_store) 1 0 5 0 = PluralRuleOther"
    by (simp add: range_store_def example_locale_def)
  have 13: "Index ''{0} to {1}'' paramZero < Index ''{0} to {1}'' paramOne"
    by (simp add: paramZero_def paramOne_def)
  have 14: "spliced Range ''{0} to {1}'' ''1'' ''5'' = ''1 to 5''"
    by (simp add: paramZero_def paramOne_def)
  note plain = conflict_and_override [of greeting_store "''greeting''" "''Hi, {0}!''"
      Cardinal PluralRuleOther]
  note plural = conflict_and_override [of days_store "''days''" "''{0} days''"
      Cardinal PluralRuleOther]
  note range = conflict_and_override [of range_store "''days''" "''{0} to {1}''"
      Range PluralRuleOther]
  from plain [THEN conjunct1, rule_format, OF 1] 5
  have a: "Add greeting_store (KString ''greeting'') ''Hi, {0}!'' False =
     (greeting_store,
      Some (ErrConflictingTranslation ''en'' ''greeting'' PluralRuleUnknown ''Hi, {0}!''))"
    by simp
  from plain [THEN conjunct2, THEN conjunct2, THEN conjunct1, rule_format,
      OF greeting_store2_reachable, THEN conjunct2, rule_format, OF 6 8(1) 9,
      THEN conjunct2, THEN conjunct2]
  have b: "T greeting_store2 (KString ''greeting'') [''World''] = Inr (''Hi, World!'', None)"
    by (simp only: 10)
  from plural [THEN conjunct2, THEN conjunct1, rule_format, OF store_ok_days_store 2] 5
  have c: "AddPlural Cardinal days_store (KString ''days'') ''{0} days'' PluralRuleOther False =
     Inr (days_store,
          Some (ErrConflictingTranslation ''en'' ''days'' PluralRuleOther ''{0} days''))"
    by simp
  have 15: "Cardinal = Range \<Longrightarrow> P" for P
    by simp
  from plural [THEN conjunct2, THEN conjunct2, THEN conjunct2, rule_format,
      OF store_ok_days_store 3, THEN conjunct2, rule_format, OF 4 15, of "''5.0''" "[]"]
  have d: "render_plural Cardinal days_store3 (KString ''days'') 5 1 0 0 ''5.0'' [] =
     Inr (''5.0 days'', None)"
    by (simp only: 7)
  from range [THEN conjunct2, THEN conjunct2, THEN conjunct2, rule_format,
      OF store_ok_range_store 11, THEN conjunct2, rule_format, OF 12 13, of "''1''" "''5''"]
  have e: "render_plural Range range_store2 (KString ''days'') 1 0 5 0 ''1'' ''5'' =
     Inr (''1 to 5'', None)"
    by (simp only: 14)
  from 1 a greeting_store2_reachable 6 8(2) 9 b store_ok_days_store 2 c 3 4 d
    store_ok_range_store 11 12 13 e
  show ?thesis
    by (intro conjI)
qed

text \<open>
  The conditions of the amended claim C6 are needed. With \<open>override\<close> set, on a key or slot
  that has an entry: \<open>Add\<close> with the text \<open>a {0\<close> returns \<open>ErrMissingBrace\<close>, the entry is
  not replaced, and \<open>T\<close> renders the old text; \<open>Add\<close> accepts the text \<open>{1} {0}\<close>, whose
  offsets are not ascending, and \<open>T\<close> then panics; \<open>AddRange\<close> accepts the text \<open>{1}-{0}\<close>,
  where \<open>{1}\<close> comes first, and \<open>R\<close> then panics; and \<open>T\<close> without a parameter for the
  placeholder of the accepted text \<open>Hi, {0}!\<close> panics.
\<close>

theorem override_invalid_text_counterexample:
  "map_of (translations' greeting_store) (KString ''greeting'') =
     Some \<lparr>text' = ''Hello, {0}!'', indexes = [7, 10]\<rparr> \<and>
   Add greeting_store (KString ''greeting'') ''a {0'' True =
     (greeting_store, Some (ErrMissingBrace ''en'' ''greeting'' ''a {0'')) \<and>
   T greeting_store (KString ''greeting'') [''World''] = Inr (''Hello, World!'', None) \<and>
   Add greeting_store (KString ''greeting'') ''{1} {0}'' True = (greeting_store3, None) \<and>
   T greeting_store3 (KString ''greeting'') [''a'', ''b''] = Inl (SliceBoundsOutOfRange 7 0) \<and>
   AddRange range_store (KString ''days'') ''{1}-{0}'' PluralRuleOther True =
     Inr (range_store3, None) \<and>
   R range_store3 (KString ''days'') 1 0 5 0 ''1'' ''5'' = Inl (SliceBoundsOutOfRange 7 0) \<and>
   Add greeting_store (KString ''greeting'') ''Hi, {0}!'' True = (greeting_store2, None) \<and>
   T greeting_store2 (KString ''greeting'') [] = Inl (IndexOutOfRange 0 0)"
proof -
  have 1: "map_of (translations' greeting_store) (KString ''greeting'') =
     Some \<lparr>text' = ''Hello, {0}!'', indexes = [7, 10]\<rparr>"
    by (simp add: greeting_store_def)
  have 2: "Add greeting_store (KString ''greeting'') ''a {0'' True =
     (greeting_store, Some (ErrMissingBrace ''en'' ''greeting'' ''a {0''))"
    by (simp add: Add_def Count_def greeting_store_def example_locale_def)
  have 3: "Add greeting_store (KString ''greeting'') ''{1} {0}'' True = (greeting_store3, None)"
    by (simp add: Add_def Count_def Itoa_0 Itoa_1 greeting_store_def greeting_store3_def)
  have 4: "T greeting_store3 (KString ''greeting'') [''a'', ''b''] =
     Inl (SliceBoundsOutOfRange 7 0)"
    by (simp add: T_def greeting_store3_def T_loop.simps slice_def)
  have 5: "AddRange range_store (KString ''days'') ''{1}-{0}'' PluralRuleOther True =
     Inr (range_store3, None)"
    by (simp add: AddRange_def example_locale_def conflicting_def
      slots_of_def paramZero_def paramOne_def Let_def eval_nat_numeral range_store_def
      range_store3_def)
  have 6: "R range_store3 (KString ''days'') 1 0 5 0 ''1'' ''5'' = Inl (SliceBoundsOutOfRange 7 0)"
    by (simp add: R_def range_store3_def example_locale_def deref_def splice2_def at_def
        slice_to_def slice_def)
  have 7: "T greeting_store2 (KString ''greeting'') [] = Inl (IndexOutOfRange 0 0)"
    by (simp add: T_def greeting_store2_def T_loop.simps slice_def)
  from 1 2 T_greeting 3 4 5 6 greeting_store2_reachable 7 show ?thesis
    by (intro conjI)
qed

text \<open>
  The range case in general: whenever \<open>AddRange\<close> stores a text in which \<open>{1}\<close> comes before
  \<open>{0}\<close>, \<open>R\<close> panics on the entry, at the slice between the two placeholders.
\<close>

lemma splice2_param_one_first:
  assumes "Index tx paramZero \<noteq> - 1" "Index tx paramOne \<noteq> - 1"
    and "Index tx paramOne < Index tx paramZero"
  shows "\<exists>p. splice2 (compiled Range tx) param1 param2 = Inl p"
  using Index_found [OF assms(1)] Index_found [OF assms(2)] assms(3)
  by (simp add: splice2_def at_def slice_to_def slice_def)

lemma R_param_one_first:
  assumes ok: "store_ok t"
    and a: "AddRange t (KString key) tx rule override = Inr (t', None)"
    and sel: "RangePluralRule (Translator t) num1 digits1 num2 digits2 = rule"
    and rev: "Index tx paramOne < Index tx paramZero"
  shows "\<exists>p. R t' (KString key) num1 digits1 num2 digits2 param1 param2 = Inl p"
proof -
  from a AddPlural_char [OF ok, of Range key tx rule override]
  have t': "t' = set_slot Range t (KString key) rule (Some (compiled Range tx))"
    and mp: "missing_param Range tx = None"
    by (auto split: if_splits option.splits)
  have s: "slot_at (plural_map Range t') (KString key) rule = Some (compiled Range tx)"
    using slot_at_set_slot [OF ok, of Range Range "KString key" rule
        "Some (compiled Range tx)" "KString key" rule]
    by (simp add: t')
  have l: "Translator t' = Translator t" by (simp add: t')
  from sel l have sel': "selected_rule Range (Translator t') num1 digits1 num2 digits2 = rule"
    by simp
  from missing_param_None [OF mp] rev
  obtain p where p: "splice2 (compiled Range tx) param1 param2 = Inl p"
    using splice2_param_one_first [of tx param1 param2] by auto
  from render_plural_slot [OF s sel', of param1 param2] p show ?thesis
    by simp
qed

subsection \<open>Import: the first error aborts, nothing is rolled back\<close>

lemma ImportFromReader_append:
  "ImportFromReader ut (xs @ ys) =
     (case ImportFromReader ut xs of
        Inl p \<Rightarrow> Inl p
      | Inr (ut', Some e) \<Rightarrow> Inr (ut', Some e)
      | Inr (ut', None) \<Rightarrow> ImportFromReader ut' ys)"
  by (induction xs arbitrary: ut) (auto split: sum.splits option.splits prod.splits)

lemma Add_frame:
  assumes "Add t k text override = (t', err)"
  shows "Translator t' = Translator t" "plural_map cat t' = plural_map cat t"
    "k' \<noteq> k \<Longrightarrow> map_of (translations' t') k' = map_of (translations' t) k'"
  using assms
  by (cases k; cases cat;
      auto simp: Add_def Let_def update_conv' split: if_splits sum.splits)+

lemma AddPlural_frame:
  assumes ok: "store_ok t" and a: "AddPlural cat t k text rule override = Inr (t', err)"
  shows "Translator t' = Translator t" "translations' t' = translations' t"
    "cat' \<noteq> cat \<or> k' \<noteq> k \<or> rule' \<noteq> rule \<Longrightarrow>
       slot_at (plural_map cat' t') k' rule' = slot_at (plural_map cat' t) k' rule'"
proof -
  have "Translator t' = Translator t \<and> translations' t' = translations' t \<and>
    (cat' \<noteq> cat \<or> k' \<noteq> k \<or> rule' \<noteq> rule \<longrightarrow>
       slot_at (plural_map cat' t') k' rule' = slot_at (plural_map cat' t) k' rule')"
  proof (cases k)
    case (KString key)
    with a show ?thesis
      by (auto simp: AddPlural_char [OF ok] slot_at_set_slot [OF ok]
          split: if_splits option.splits)
  next
    case (KOther n)
    with a have "t' = t"
      by (cases cat) (auto simp: AddCardinal_def AddOrdinal_def AddRange_def)
    then show ?thesis by simp
  qed
  then show "Translator t' = Translator t" "translations' t' = translations' t"
    "cat' \<noteq> cat \<or> k' \<noteq> k \<or> rule' \<noteq> rule \<Longrightarrow>
       slot_at (plural_map cat' t') k' rule' = slot_at (plural_map cat' t) k' rule'"
    by auto
qed

lemma add_fields_frame:
  assumes "store_ok t" "add_fields (AddPlural cat) t k override fs = Inr (t', err)"
  shows "store_ok t' \<and> Translator t' = Translator t \<and> translations' t' = translations' t \<and>
    (\<forall>cat' k' rule'. cat' \<noteq> cat \<or> k' \<noteq> k \<or> rule' \<notin> snd ` set fs \<longrightarrow>
       slot_at (plural_map cat' t') k' rule' = slot_at (plural_map cat' t) k' rule')"
  using assms
proof (induction fs arbitrary: t)
  case Nil
  then show ?case by simp
next
  case (Cons f fs)
  obtain tx ru where f: "f = (tx, ru)" by (cases f)
  show ?case
  proof (cases "tx = []")
    case True
    with Cons.prems f have "add_fields (AddPlural cat) t k override fs = Inr (t', err)" by simp
    from Cons.IH [OF Cons.prems(1) this] show ?thesis by (auto simp: f)
  next
    case False
    from AddPlural_no_panic [OF Cons.prems(1), of cat k tx ru override]
    obtain t1 e1 where a: "AddPlural cat t k tx ru override = Inr (t1, e1)" by blast
    note ok1 = store_ok_AddPlural [OF Cons.prems(1) a]
    note fr = AddPlural_frame [OF Cons.prems(1) a]
    show ?thesis
    proof (cases e1)
      case (Some e)
      with Cons.prems(2) f False a have "t' = t1" by simp
      with ok1 fr show ?thesis by (auto simp: f)
    next
      case None
      with Cons.prems(2) f False a
      have "add_fields (AddPlural cat) t1 k override fs = Inr (t', err)" by simp
      from Cons.IH [OF ok1 this] fr show ?thesis by (auto simp: f)
    qed
  qed
qed

lemma add_fields_append:
  "add_fields addFn t k override (xs @ ys) =
     (case add_fields addFn t k override xs of
        Inl p \<Rightarrow> Inl p
      | Inr (t', Some e) \<Rightarrow> Inr (t', Some e)
      | Inr (t', None) \<Rightarrow> add_fields addFn t' k override ys)"
proof (induction xs arbitrary: t)
  case Nil
  then show ?case by simp
next
  case (Cons f xs)
  obtain tx ru where f: "f = (tx, ru)" by (cases f)
  show ?case
    by (simp add: f Cons.IH split: sum.split prod.split option.split)
qed

lemma add_fields_added:
  assumes "store_ok t" "distinct (map snd fs)"
    "add_fields (AddPlural cat) t (KString key) override fs = Inr (t', None)"
  shows "\<forall>(tx, ru) \<in> set fs. tx \<noteq> [] \<longrightarrow>
           slot_at (plural_map cat t') (KString key) ru = Some (compiled cat tx)"
  using assms
proof (induction fs arbitrary: t)
  case Nil
  then show ?case by simp
next
  case (Cons f fs)
  obtain tx ru where f: "f = (tx, ru)" by (cases f)
  from Cons.prems(2) f have d: "distinct (map snd fs)" and nin: "ru \<notin> snd ` set fs" by auto
  show ?case
  proof (cases "tx = []")
    case True
    with Cons.prems f
    have "add_fields (AddPlural cat) t (KString key) override fs = Inr (t', None)" by simp
    from Cons.IH [OF Cons.prems(1) d this] True f show ?thesis by simp
  next
    case False
    from AddPlural_no_panic [OF Cons.prems(1), of cat "KString key" tx ru override]
    obtain t1 e1 where a: "AddPlural cat t (KString key) tx ru override = Inr (t1, e1)" by blast
    with Cons.prems(3) f False have e1: "e1 = None"
      and rest: "add_fields (AddPlural cat) t1 (KString key) override fs = Inr (t', None)"
      by (auto split: option.splits)
    note ok1 = store_ok_AddPlural [OF Cons.prems(1) a]
    from a e1 have s1: "slot_at (plural_map cat t1) (KString key) ru = Some (compiled cat tx)"
      by (auto simp: AddPlural_char [OF Cons.prems(1)] slot_at_set_slot [OF Cons.prems(1)]
          split: if_splits option.splits)
    from add_fields_frame [OF ok1 rest] nin s1
    have "slot_at (plural_map cat t') (KString key) ru = Some (compiled cat tx)" by simp
    with Cons.IH [OF ok1 d rest] f show ?thesis by simp
  qed
qed

lemma add_fields_failing_call:
  assumes "store_ok t" "add_fields (AddPlural cat) t k override fs = Inr (t', Some e)"
  shows "\<exists>fs1 tx ru fs2 tm. fs = fs1 @ (tx, ru) # fs2 \<and> tx \<noteq> [] \<and>
           add_fields (AddPlural cat) t k override fs1 = Inr (tm, None) \<and>
           AddPlural cat tm k tx ru override = Inr (t', Some e)"
  using assms
proof (induction fs arbitrary: t)
  case Nil
  then show ?case by simp
next
  case (Cons f fs)
  obtain tx ru where f: "f = (tx, ru)" by (cases f)
  show ?case
  proof (cases "tx = []")
    case True
    with Cons.prems f
    have "add_fields (AddPlural cat) t k override fs = Inr (t', Some e)" by simp
    from Cons.IH [OF Cons.prems(1) this] obtain fs1 tx1 ru1 fs2 tm where
      "fs = fs1 @ (tx1, ru1) # fs2" "tx1 \<noteq> []"
      "add_fields (AddPlural cat) t k override fs1 = Inr (tm, None)"
      "AddPlural cat tm k tx1 ru1 override = Inr (t', Some e)"
      by blast
    with True f have "f # fs = (f # fs1) @ (tx1, ru1) # fs2 \<and> tx1 \<noteq> [] \<and>
       add_fields (AddPlural cat) t k override (f # fs1) = Inr (tm, None) \<and>
       AddPlural cat tm k tx1 ru1 override = Inr (t', Some e)"
      by simp
    then show ?thesis by blast
  next
    case False
    from AddPlural_no_panic [OF Cons.prems(1), of cat k tx ru override]
    obtain t1 e1 where a: "AddPlural cat t k tx ru override = Inr (t1, e1)" by blast
    note ok1 = store_ok_AddPlural [OF Cons.prems(1) a]
    show ?thesis
    proof (cases e1)
      case (Some e')
      with Cons.prems(2) f False a have "t1 = t'" "e' = e" by simp_all
      with a Some False f have "f # fs = [] @ (tx, ru) # fs \<and> tx \<noteq> [] \<and>
        add_fields (AddPlural cat) t k override [] = Inr (t, None) \<and>
        AddPlural cat t k tx ru override = Inr (t', Some e)"
        by simp
      then show ?thesis by blast
    next
      case None
      with Cons.prems(2) f False a
      have rest: "add_fields (AddPlural cat) t1 k override fs = Inr (t', Some e)"
        by simp
      from Cons.IH [OF ok1 rest] obtain fs1 tx1 ru1 fs2 tm where
        "fs = fs1 @ (tx1, ru1) # fs2" "tx1 \<noteq> []"
        "add_fields (AddPlural cat) t1 k override fs1 = Inr (tm, None)"
        "AddPlural cat tm k tx1 ru1 override = Inr (t', Some e)"
        by blast
      with None False f a have "f # fs = (f # fs1) @ (tx1, ru1) # fs2 \<and> tx1 \<noteq> [] \<and>
         add_fields (AddPlural cat) t k override (f # fs1) = Inr (tm, None) \<and>
         AddPlural cat tm k tx1 ru1 override = Inr (t', Some e)"
        by simp
      then show ?thesis by blast
    qed
  qed
qed

lemma add_fields_kept:
  assumes ok: "store_ok t" and d: "distinct (map snd (fs1 @ fs2))"
    and pre: "add_fields (AddPlural cat) t (KString key) override fs1 = Inr (tm, None)"
    and all: "add_fields (AddPlural cat) t (KString key) override (fs1 @ fs2) = Inr (t', err)"
  shows "\<forall>(tx, ru) \<in> set fs1. tx \<noteq> [] \<longrightarrow>
           slot_at (plural_map cat tm) (KString key) ru = Some (compiled cat tx) \<and>
           slot_at (plural_map cat t') (KString key) ru = Some (compiled cat tx)"
proof -
  from d have d1: "distinct (map snd fs1)" and dj: "snd ` set fs1 \<inter> snd ` set fs2 = {}"
    by auto
  note added = add_fields_added [OF ok d1 pre]
  from add_fields_frame [OF ok pre] have okm: "store_ok tm" by simp
  from all pre have rest: "add_fields (AddPlural cat) tm (KString key) override fs2 = Inr (t', err)"
    by (simp add: add_fields_append)
  from add_fields_frame [OF okm rest]
  have "slot_at (plural_map cat t') (KString key) ru = slot_at (plural_map cat tm) (KString key) ru"
    if "ru \<notin> snd ` set fs2" for ru
    using that by simp
  with added dj show ?thesis by fastforce
qed

lemma import_into_plural:
  "import_category r = Some cat \<Longrightarrow>
     import_into t key r =
       add_fields (AddPlural cat) t (KString key) (OverrideExisting r) (fields_of r)"
  by (auto simp: import_category_def import_into_def Let_def RuleTypePlain_def
      RuleTypeCardinal_def RuleTypeOrdinal_def RuleTypeRange_def split: if_splits)

lemma import_into_other:
  "import_category r = None \<Longrightarrow>
     import_into t key r =
       (if ToLower (RuleType r) = [] \<or> ToLower (RuleType r) = RuleTypePlain
        then Inr (Add t (KString key) (Other r) (OverrideExisting r))
        else Inr (t, Some (ErrInvalidRuleType (RuleType r))))"
  by (auto simp: import_category_def import_into_def Let_def split: if_splits)

lemma import_into_frame:
  assumes ok: "store_ok t" and a: "import_into t key r = Inr (t', err)"
  shows "store_ok t' \<and>
     (\<forall>k'. k' \<noteq> KString key \<longrightarrow>
        map_of (translations' t') k' = map_of (translations' t) k' \<and>
        (\<forall>cat rule. slot_at (plural_map cat t') k' rule = slot_at (plural_map cat t) k' rule))"
proof (cases "import_category r")
  case (Some cat)
  from a have "add_fields (AddPlural cat) t (KString key) (OverrideExisting r) (fields_of r) =
      Inr (t', err)"
    by (simp add: import_into_plural [OF Some])
  from add_fields_frame [OF ok this] show ?thesis by auto
next
  case None
  show ?thesis
  proof (cases "ToLower (RuleType r) = [] \<or> ToLower (RuleType r) = RuleTypePlain")
    case True
    with a have ad: "Add t (KString key) (Other r) (OverrideExisting r) = (t', err)"
      by (simp add: import_into_other [OF None])
    from store_ok_Add [OF ok ad] Add_frame [OF ad] show ?thesis by auto
  next
    case False
    with a have "t' = t" by (simp add: import_into_other [OF None])
    with ok show ?thesis by simp
  qed
qed

lemma set_update_subset: "set (AList.update k v m) \<subseteq> insert (k, v) (set m)"
  by (induction m) auto

lemma import_translation_frame:
  assumes ok: "registry_ok ut" and a: "import_translation ut key r = Inr (ut', err)"
  shows "registry_ok ut' \<and>
     (\<forall>lc k'. k' \<noteq> KString key \<longrightarrow>
        plain_at ut' lc k' = plain_at ut lc k' \<and>
        (\<forall>cat rule. plural_at ut' lc cat k' rule = plural_at ut lc cat k' rule))"
proof (cases "FindTranslator ut [Locale' r]")
  case None
  with a have "ut' = ut" by (simp add: import_translation_def)
  with ok show ?thesis by simp
next
  case (Some lc)
  show ?thesis
  proof (cases "map_of (translators ut) lc")
    case None
    with a Some have "ut' = ut" by (simp add: import_translation_def)
    with ok show ?thesis by simp
  next
    case st: (Some t)
    from ok st have okt: "store_ok t"
      by (auto simp: registry_ok_def dest!: map_of_SomeD)
    from a Some st obtain t' where i: "import_into t key r = Inr (t', err)"
      and u: "ut' = ut\<lparr>translators := AList.update lc t' (translators ut)\<rparr>"
      by (auto simp: import_translation_def split: sum.splits)
    note fr = import_into_frame [OF okt i]
    from fr ok set_update_subset [of lc t' "translators ut"] have "registry_ok ut'"
      by (auto simp: registry_ok_def u)
    moreover have "plain_at ut' lc' k' = plain_at ut lc' k' \<and>
        (\<forall>cat rule. plural_at ut' lc' cat k' rule = plural_at ut lc' cat k' rule)"
      if "k' \<noteq> KString key" for lc' k'
      using fr st that by (auto simp: plain_at_def plural_at_def u update_conv')
    ultimately show ?thesis by blast
  qed
qed

lemma ImportFromReader_frame:
  assumes "registry_ok ut" "ImportFromReader ut rs = Inr (ut', err)"
  shows "registry_ok ut' \<and>
     (\<forall>lc k. k \<notin> fst ` set rs \<longrightarrow>
        plain_at ut' lc (KString k) = plain_at ut lc (KString k) \<and>
        (\<forall>cat rule. plural_at ut' lc cat (KString k) rule = plural_at ut lc cat (KString k) rule))"
  using assms
proof (induction rs arbitrary: ut)
  case Nil
  then show ?case by simp
next
  case (Cons x rs)
  obtain key r where x: "x = (key, r)" by (cases x)
  from Cons.prems(2) x obtain ut1 e1 where
    i: "import_translation ut key r = Inr (ut1, e1)"
    by (auto split: sum.splits)
  note fr = import_translation_frame [OF Cons.prems(1) i]
  show ?case
  proof (cases e1)
    case (Some e)
    with Cons.prems(2) x i have "ut' = ut1" by simp
    with fr show ?thesis by (auto simp: x)
  next
    case None
    with Cons.prems(2) x i have "ImportFromReader ut1 rs = Inr (ut', err)" by simp
    from Cons.IH [OF _ this] fr show ?thesis by (auto simp: x)
  qed
qed

lemma fields_of_distinct: "distinct (map snd (fields_of r))"
  by (simp add: fields_of_def)

text \<open>
  Claim C7. A document is imported entry by entry; its keys are distinct, as it is a map.
  If the entries \<open>rs1\<close> are imported without error and the next entry fails with \<open>e\<close>,
  the import of the whole document returns \<open>e\<close> and the registry as the failing entry
  left it, whatever entries follow: none of them is applied. In that registry, all that an
  earlier entry of the document committed under its key is as it was right after that
  entry was imported. Within a failing entry of a plural category, \<open>e\<close> is the error of
  the call for one of its fields, made after the calls for the fields before it had
  succeeded, and the translator is as that call left it; and whenever the calls for the
  first fields \<open>fs1\<close> of the entry have succeeded, every text among them is in its slot:
  after these calls, and in the registry that the import returns.
\<close>

theorem import_aborts_without_rollback:
  assumes "registry_ok ut"
    and "distinct (map fst (rs1 @ (key, r) # rs2))"
    and "ImportFromReader ut rs1 = Inr (ut1, None)"
    and "import_translation ut1 key r = Inr (ut2, Some e)"
  shows "ImportFromReader ut (rs1 @ (key, r) # rs2) = Inr (ut2, Some e) \<and>
    (\<forall>ra k r' rb uta lc.
       rs1 = ra @ (k, r') # rb \<longrightarrow> ImportFromReader ut (ra @ [(k, r')]) = Inr (uta, None) \<longrightarrow>
       plain_at ut2 lc (KString k) = plain_at uta lc (KString k) \<and>
       (\<forall>cat rule. plural_at ut2 lc cat (KString k) rule = plural_at uta lc cat (KString k) rule)) \<and>
    (\<forall>lc cat t.
       FindTranslator ut1 [Locale' r] = Some lc \<longrightarrow> map_of (translators ut1) lc = Some t \<longrightarrow>
       import_category r = Some cat \<longrightarrow>
       (\<exists>fs1 tx ru fs2 tm t'.
          fields_of r = fs1 @ (tx, ru) # fs2 \<and> tx \<noteq> [] \<and>
          add_fields (AddPlural cat) t (KString key) (OverrideExisting r) fs1 = Inr (tm, None) \<and>
          AddPlural cat tm (KString key) tx ru (OverrideExisting r) = Inr (t', Some e) \<and>
          map_of (translators ut2) lc = Some t') \<and>
       (\<forall>fs1 fs2 tm.
          fields_of r = fs1 @ fs2 \<longrightarrow>
          add_fields (AddPlural cat) t (KString key) (OverrideExisting r) fs1 = Inr (tm, None) \<longrightarrow>
          (\<forall>(tx, ru) \<in> set fs1. tx \<noteq> [] \<longrightarrow>
             slot_at (plural_map cat tm) (KString key) ru = Some (compiled cat tx) \<and>
             plural_at ut2 lc cat (KString key) ru = Some (compiled cat tx))))"
proof -
  have A: "ImportFromReader ut (rs1 @ (key, r) # rs2) = Inr (ut2, Some e)"
    by (simp add: ImportFromReader_append assms(3,4))
  have B: "plain_at ut2 lc (KString k) = plain_at uta lc (KString k) \<and>
       (\<forall>cat rule. plural_at ut2 lc cat (KString k) rule = plural_at uta lc cat (KString k) rule)"
    if split: "rs1 = ra @ (k, r') # rb"
      and pre: "ImportFromReader ut (ra @ [(k, r')]) = Inr (uta, None)"
    for ra k r' rb uta lc
  proof -
    from ImportFromReader_frame [OF assms(1) pre] have oka: "registry_ok uta" by simp
    from assms(3) have "ImportFromReader ut ((ra @ [(k, r')]) @ rb) = Inr (ut1, None)"
      by (simp add: split)
    then have rb: "ImportFromReader uta rb = Inr (ut1, None)"
      by (simp only: ImportFromReader_append [of ut "ra @ [(k, r')]" rb] pre) simp
    from assms(2) split have nrb: "k \<notin> fst ` set rb" and nk: "k \<noteq> key" by auto
    note f1 = ImportFromReader_frame [OF oka rb]
    then have ok1: "registry_ok ut1" by simp
    note f2 = import_translation_frame [OF ok1 assms(4)]
    from f1 f2 nrb nk show ?thesis by simp
  qed
  have C: "(\<exists>fs1 tx ru fs2 tm t'.
          fields_of r = fs1 @ (tx, ru) # fs2 \<and> tx \<noteq> [] \<and>
          add_fields (AddPlural cat) t (KString key) (OverrideExisting r) fs1 = Inr (tm, None) \<and>
          AddPlural cat tm (KString key) tx ru (OverrideExisting r) = Inr (t', Some e) \<and>
          map_of (translators ut2) lc = Some t') \<and>
       (\<forall>fs1 fs2 tm.
          fields_of r = fs1 @ fs2 \<longrightarrow>
          add_fields (AddPlural cat) t (KString key) (OverrideExisting r) fs1 = Inr (tm, None) \<longrightarrow>
          (\<forall>(tx, ru) \<in> set fs1. tx \<noteq> [] \<longrightarrow>
             slot_at (plural_map cat tm) (KString key) ru = Some (compiled cat tx) \<and>
             plural_at ut2 lc cat (KString key) ru = Some (compiled cat tx)))"
    if fnd: "FindTranslator ut1 [Locale' r] = Some lc" and st: "map_of (translators ut1) lc = Some t"
      and ic: "import_category r = Some cat"
    for lc cat t
  proof -
    from ImportFromReader_frame [OF assms(1,3)] have ok1: "registry_ok ut1" by simp
    from ok1 st have okt: "store_ok t"
      by (auto simp: registry_ok_def dest!: map_of_SomeD)
    from assms(4) fnd st obtain t' where i: "import_into t key r = Inr (t', Some e)"
        and u: "ut2 = ut1\<lparr>translators := AList.update lc t' (translators ut1)\<rparr>"
      by (auto simp: import_translation_def split: sum.splits)
    from i have af: "add_fields (AddPlural cat) t (KString key) (OverrideExisting r) (fields_of r) =
        Inr (t', Some e)"
      by (simp add: import_into_plural [OF ic])
    have m2: "map_of (translators ut2) lc = Some t'"
      by (simp add: u update_conv')
    then have pa: "plural_at ut2 lc cat k' ru' = slot_at (plural_map cat t') k' ru'" for k' ru'
      by (simp add: plural_at_def)
    from add_fields_failing_call [OF okt af] m2
    have first: "\<exists>fs1 tx ru fs2 tm t'.
          fields_of r = fs1 @ (tx, ru) # fs2 \<and> tx \<noteq> [] \<and>
          add_fields (AddPlural cat) t (KString key) (OverrideExisting r) fs1 = Inr (tm, None) \<and>
          AddPlural cat tm (KString key) tx ru (OverrideExisting r) = Inr (t', Some e) \<and>
          map_of (translators ut2) lc = Some t'"
      by blast
    have kept: "\<forall>(tx, ru) \<in> set fs1. tx \<noteq> [] \<longrightarrow>
             slot_at (plural_map cat tm) (KString key) ru = Some (compiled cat tx) \<and>
             plural_at ut2 lc cat (KString key) ru = Some (compiled cat tx)"
      if sp: "fields_of r = fs1 @ fs2"
        and pre: "add_fields (AddPlural cat) t (KString key) (OverrideExisting r) fs1 = Inr (tm, None)"
      for fs1 fs2 tm
    proof -
      from fields_of_distinct [of r] sp have d: "distinct (map snd (fs1 @ fs2))" by simp
      from af sp have all: "add_fields (AddPlural cat) t (KString key) (OverrideExisting r)
          (fs1 @ fs2) = Inr (t', Some e)" by simp
      from add_fields_kept [OF okt d pre all] show ?thesis by (simp add: pa)
    qed
    from first kept show ?thesis by blast
  qed
  from A B C show ?thesis by blast
qed

lemma ToLower_examples:
  "ToLower [] = []" "ToLower ''en'' = ''en''" "ToLower ''cardinal'' = ''cardinal''"
  "ToLower ''plain'' = ''plain''"
  by (simp_all add: ToLower_def isASCII_def lower_char_def)

lemma registry_ok_fresh: "registry_ok fresh_registry"
  by (simp add: registry_ok_def fresh_registry_def store_ok_newTranslator)

lemma import_greeting:
  "ImportFromReader fresh_registry [(''greeting'', greeting_record)] = Inr (greeting_registry, None)"
  by (simp add: fresh_registry_def greeting_record_def import_translation_def import_into_def
      ToLower_examples greeting_store_reachable greeting_registry_def)

lemma import_bad_days:
  "import_translation greeting_registry ''days'' bad_days_record =
     Inr (aborted_registry,
          Some (ErrCardinalTranslation (ParameterNotFound ''{0}'' ''en'' ''days'' ''days left'')))"
  by (simp add: greeting_registry_def bad_days_record_def import_translation_def import_into_def
      ToLower_examples RuleTypePlain_def RuleTypeCardinal_def fields_of_def
      AddCardinal_def greeting_store_def example_locale_def conflicting_def slots_of_def
      paramZero_def Let_def eval_nat_numeral aborted_registry_def)

lemma import_greeting':
  "ImportFromReader fresh_registry ([] @ [(''greeting'', greeting_record)]) =
     Inr (greeting_registry, None)"
  using import_greeting by simp

lemma bad_days_fields:
  "fields_of bad_days_record =
     [([], PluralRuleZero), (''{0} day left'', PluralRuleOne), ([], PluralRuleTwo),
      ([], PluralRuleFew), ([], PluralRuleMany)] @ [(''days left'', PluralRuleOther)]"
  by (simp add: fields_of_def bad_days_record_def)

lemma bad_days_added:
  "add_fields (AddPlural Cardinal) greeting_store (KString ''days'')
     (OverrideExisting bad_days_record)
     [([], PluralRuleZero), (''{0} day left'', PluralRuleOne), ([], PluralRuleTwo),
      ([], PluralRuleFew), ([], PluralRuleMany)] =
   Inr (greeting_store
          \<lparr>cardinalTanslations :=
             [(KString ''days'',
               [None, None, Some \<lparr>text' = ''{0} day left'', indexes = [0, 3]\<rparr>, None, None,
                None, None])]\<rparr>, None)"
  by (simp add: bad_days_record_def AddCardinal_def greeting_store_def example_locale_def
      conflicting_def slots_of_def paramZero_def Let_def eval_nat_numeral)

theorem import_aborts_without_rollback_witness:
  "registry_ok fresh_registry \<and>
   distinct (map fst ([(''greeting'', greeting_record)] @ (''days'', bad_days_record) #
                       [(''bye'', bye_record)])) \<and>
   ImportFromReader fresh_registry [(''greeting'', greeting_record)] =
     Inr (greeting_registry, None) \<and>
   import_translation greeting_registry ''days'' bad_days_record =
     Inr (aborted_registry,
          Some (ErrCardinalTranslation (ParameterNotFound ''{0}'' ''en'' ''days'' ''days left''))) \<and>
   ImportFromReader fresh_registry
     ([(''greeting'', greeting_record)] @ (''days'', bad_days_record) # [(''bye'', bye_record)]) =
     Inr (aborted_registry,
          Some (ErrCardinalTranslation (ParameterNotFound ''{0}'' ''en'' ''days'' ''days left''))) \<and>
   plain_at aborted_registry ''en'' (KString ''greeting'') =
     plain_at greeting_registry ''en'' (KString ''greeting'') \<and>
   plain_at greeting_registry ''en'' (KString ''greeting'') =
     Some \<lparr>text' = ''Hello, {0}!'', indexes = [7, 10]\<rparr> \<and>
   FindTranslator greeting_registry [Locale' bad_days_record] = Some ''en'' \<and>
   map_of (translators greeting_registry) ''en'' = Some greeting_store \<and>
   import_category bad_days_record = Some Cardinal \<and>
   plural_at aborted_registry ''en'' Cardinal (KString ''days'') PluralRuleOne =
     Some \<lparr>text' = ''{0} day left'', indexes = [0, 3]\<rparr> \<and>
   plural_at aborted_registry ''en'' Cardinal (KString ''days'') PluralRuleOther = None \<and>
   plain_at aborted_registry ''en'' (KString ''bye'') = None"
proof -
  have d: "distinct (map fst ([(''greeting'', greeting_record)] @ (''days'', bad_days_record) #
                       [(''bye'', bye_record)]))"
    by simp
  note main = import_aborts_without_rollback [OF registry_ok_fresh d import_greeting import_bad_days]
  have sp: "[(''greeting'', greeting_record)] = [] @ (''greeting'', greeting_record) # []"
    by simp
  have 1: "plain_at greeting_registry ''en'' (KString ''greeting'') =
     Some \<lparr>text' = ''Hello, {0}!'', indexes = [7, 10]\<rparr>"
    "plain_at aborted_registry ''en'' (KString ''bye'') = None"
    "plural_at aborted_registry ''en'' Cardinal (KString ''days'') PluralRuleOther = None"
    by (simp_all add: plain_at_def plural_at_def slot_at_def greeting_registry_def
        aborted_registry_def greeting_store_def)
  have 2: "FindTranslator greeting_registry [Locale' bad_days_record] = Some ''en''"
    "map_of (translators greeting_registry) ''en'' = Some greeting_store"
    by (simp_all add: greeting_registry_def bad_days_record_def ToLower_examples)
  have 3: "import_category bad_days_record = Some Cardinal"
    by (simp add: import_category_def bad_days_record_def ToLower_examples RuleTypePlain_def
        RuleTypeCardinal_def)
  have 4: "(''{0} day left'', PluralRuleOne) \<in>
     set [([], PluralRuleZero), (''{0} day left'', PluralRuleOne), ([], PluralRuleTwo),
          ([], PluralRuleFew), ([], PluralRuleMany)]"
    by simp
  have 5: "compiled Cardinal ''{0} day left'' = \<lparr>text' = ''{0} day left'', indexes = [0, 3]\<rparr>"
    by (simp add: paramZero_def)
  from main [THEN conjunct2, THEN conjunct1, rule_format, OF sp import_greeting', THEN conjunct1]
  have a: "plain_at aborted_registry ''en'' (KString ''greeting'') =
     plain_at greeting_registry ''en'' (KString ''greeting'')" .
  from main [THEN conjunct2, THEN conjunct2, rule_format, OF 2 3, THEN conjunct2, rule_format,
      OF bad_days_fields bad_days_added 4]
  have b: "plural_at aborted_registry ''en'' Cardinal (KString ''days'') PluralRuleOne =
     Some \<lparr>text' = ''{0} day left'', indexes = [0, 3]\<rparr>"
    by (simp only: 5 prod.case) simp
  from main [THEN conjunct1] registry_ok_fresh d import_greeting import_bad_days a 1 2 3 b
  show ?thesis by (intro conjI)
qed

subsection \<open>Export, then import\<close>

lemma both_store_reachable:
  "Add days_store2 (KString ''days'') ''days'' False = (both_store, None)"
  by (simp add: Add_def Count_def days_store2_def both_store_def)

text \<open>
  Claim C2, at a translator that holds the key \<open>days\<close> both as a plain entry and as a
  cardinal entry, and passes verification. \<open>Export\<close> writes one record for the key, whose
  field \<open>other\<close> and rule type are those of the cardinal entry. Importing that record into
  a fresh registry gives a translator that passes verification, but \<open>T\<close> on \<open>days\<close>, which
  returned \<open>days\<close> before, now fails with \<open>ErrUnknownTranslation\<close>.
\<close>

theorem export_import_loses_plain_entry:
  "VerifyTranslations both_store = Inr None \<and>
   Export both_registry = ([(''en.toml'', [(''days'', days_record)])], None) \<and>
   ImportFromReader fresh_registry [(''days'', days_record)] = Inr (days_registry, None) \<and>
   VerifyTranslations days_store2 = Inr None \<and>
   T both_store (KString ''days'') [] = Inr (''days'', None) \<and>
   T days_store2 (KString ''days'') [] = Inr ([], Some (ErrUnknownTranslation ''days''))"
proof -
  have 1: "VerifyTranslations both_store = Inr None"
    by (simp add: VerifyTranslations_def both_store_def example_locale_def)
  have 2: "Export both_registry = ([(''en.toml'', [(''days'', days_record)])], None)"
    by (simp add: Export_def both_registry_def export_locale_def both_store_def
        example_locale_def ensure_def empty_translation_def RuleTypeCardinal_def
        RuleTypeOrdinal_def RuleTypeRange_def PluralRule_String_def ToLower_def isASCII_def lower_char_def
        set_field_def days_record_def)
  have 3: "ImportFromReader fresh_registry [(''days'', days_record)] = Inr (days_registry, None)"
    by (simp add: fresh_registry_def days_record_def import_translation_def import_into_def
      ToLower_examples RuleTypePlain_def RuleTypeCardinal_def fields_of_def
      AddCardinal_def newTranslator_def example_locale_def conflicting_def slots_of_def
      paramZero_def Let_def eval_nat_numeral days_registry_def days_store2_def update_conv')
  have 4: "VerifyTranslations days_store2 = Inr None"
    by (simp add: VerifyTranslations_def days_store2_def example_locale_def)
  have 5: "T both_store (KString ''days'') [] = Inr (''days'', None)"
    by (simp add: T_def both_store_def T_loop.simps slice_from_def slice_def)
  have 6: "T days_store2 (KString ''days'') [] = Inr ([], Some (ErrUnknownTranslation ''days''))"
    by (simp add: T_def days_store2_def unknownTranslation_def)
  from 1 2 3 4 5 6 show ?thesis by (intro conjI)
qed

end
